theory Spec2Isabelle
  imports Main "HOL-Library.Word"
begin

unbundle bit_operations_syntax

section \<open>The sel4cp API simulator of libmantle\<close>

text \<open>
  A shallow embedding of \<^verbatim>\<open>examples/tutorial/start/extra/simulator.h\<close> (the mock of
  the sel4cp calls together with the scripted \<^verbatim>\<open>simulate\<close> function) and of the
  wrappers of \<^verbatim>\<open>library/libmantle.h\<close>. The C globals become the fields of one
  record that every function takes and returns; \<^verbatim>\<open>uint64_t\<close> is \<open>64 word\<close>,
  \<^verbatim>\<open>uint32_t\<close> is \<open>32 word\<close>, \<^verbatim>\<open>uint16_t\<close> is \<open>16 word\<close> and
  \<^verbatim>\<open>uint8_t\<close> is \<open>8 word\<close>.
\<close>

subsection \<open>Message encoding\<close>

text \<open>\<^verbatim>\<open>struct seL4_MessageInfo { uint64_t words[1]; }\<close>: one machine word.\<close>

record seL4_MessageInfo_t =
  words0 :: "64 word"

type_synonym sel4cp_msginfo = seL4_MessageInfo_t
type_synonym sel4cp_channel = "32 word"

text \<open>
  \<^verbatim>\<open>msginfo.words[0] = 0 | (label & 0xfffffffffffffull) << 12
     | (capsUnwrapped & 0x7ull) << 9 | (extraCaps & 0x3ull) << 7 | (length & 0x7full)\<close>
\<close>

definition seL4_MessageInfo_new ::
  "64 word \<Rightarrow> 64 word \<Rightarrow> 64 word \<Rightarrow> 64 word \<Rightarrow> seL4_MessageInfo_t" where
  "seL4_MessageInfo_new label capsUnwrapped extraCaps length' =
     \<lparr>words0 = 0
        OR push_bit 12 (label AND 0xfffffffffffff)
        OR push_bit 9 (capsUnwrapped AND 0x7)
        OR push_bit 7 (extraCaps AND 0x3)
        OR (length' AND 0x7f)\<rparr>"

text \<open>\<^verbatim>\<open>return (msginfo.words[0] & 0xfffffffffffff000ull) >> 12;\<close>\<close>

definition seL4_MessageInfo_get_label :: "seL4_MessageInfo_t \<Rightarrow> 64 word" where
  "seL4_MessageInfo_get_label msginfo = drop_bit 12 (words0 msginfo AND 0xfffffffffffff000)"

text \<open>\<^verbatim>\<open>return msginfo.words[0] & 0x7full;\<close>\<close>

definition seL4_MessageInfo_get_length :: "seL4_MessageInfo_t \<Rightarrow> 64 word" where
  "seL4_MessageInfo_get_length msginfo = words0 msginfo AND 0x7f"

text \<open>
  \<^verbatim>\<open>sel4cp_msginfo_new(uint64_t label, uint16_t count)\<close> passes 0 for both capability
  fields; the 16-bit count is widened to 64 bits by the call.
\<close>

definition sel4cp_msginfo_new :: "64 word \<Rightarrow> 16 word \<Rightarrow> sel4cp_msginfo" where
  "sel4cp_msginfo_new label count = seL4_MessageInfo_new label 0 0 (ucast count)"

definition sel4cp_msginfo_get_label :: "sel4cp_msginfo \<Rightarrow> 64 word" where
  "sel4cp_msginfo_get_label msginfo = seL4_MessageInfo_get_label msginfo"

subsection \<open>Simulation state\<close>

text \<open>
  The globals of the simulator and of the wrappers, with their initial values.
  \<^verbatim>\<open>sim_msg_register\<close> is the array of 121 message registers,
  \<^verbatim>\<open>sim_pinpad_input\<close> the one-byte buffer that stands for the pinpad's memory
  region. The pointer \<^verbatim>\<open>pinpad_input\<close>, which \<^verbatim>\<open>simulate\<close> sets to the address of
  that buffer on every call, is not a field: the buffer is read and written through
  \<open>sim_pinpad_input\<close> directly.

  \<^verbatim>\<open>sel4cp_dbg_puts\<close> has an empty body in the simulator. So that the emission of a
  diagnostic can be stated at all, the field \<open>dbg_log\<close> records the argument of
  every call of \<^verbatim>\<open>sel4cp_dbg_puts\<close>, most recent last; no function reads it.
\<close>

definition SIM_CALLTYPE_RECV :: "64 word" where "SIM_CALLTYPE_RECV = 0"
definition SIM_CALLTYPE_REPLYRECV :: "64 word" where "SIM_CALLTYPE_REPLYRECV = 1"
definition SIM_CALLTYPE_PPCALL :: "64 word" where "SIM_CALLTYPE_PPCALL = 2"
definition SEL4CP_MAX_CHANNELS :: "32 word" where "SEL4CP_MAX_CHANNELS = 63"

record sim_state =
  sim_calltype :: "64 word"
  sim_tick :: "64 word"
  sim_notified :: "64 word"
  sim_irq_acked :: "64 word"
  sim_ppcalled :: "64 word"
  sim_reply_label :: "64 word"
  sim_msg_register :: "64 word list"
  sim_return_badge :: "64 word"
  debug :: "64 word"
  sim_pinpad_input :: "8 word"
  sim_stage :: "64 word"
  sim_irq_delay :: "64 word"
  sim_next_digit :: "64 word"
  mantle_ret_count :: "16 word"
  mantle_ret_badge :: "64 word"
  dbg_log :: "string list"

definition sim_init :: sim_state where
  "sim_init =
     \<lparr>sim_calltype = SIM_CALLTYPE_RECV, sim_tick = 0, sim_notified = 0,
      sim_irq_acked = 0, sim_ppcalled = 0, sim_reply_label = 0,
      sim_msg_register = replicate 121 0, sim_return_badge = 0, debug = 0,
      sim_pinpad_input = 0, sim_stage = 0, sim_irq_delay = 1000000,
      sim_next_digit = 5, mantle_ret_count = 0, mantle_ret_badge = 0,
      dbg_log = []\<rparr>"

definition sel4cp_dbg_puts :: "string \<Rightarrow> sim_state \<Rightarrow> sim_state" where
  "sel4cp_dbg_puts msg s = s\<lparr>dbg_log := dbg_log s @ [msg]\<rparr>"

subsection \<open>Notifications and interrupt acknowledgement\<close>

text \<open>
  Both functions compute the flag as \<^verbatim>\<open>(1 << ch)\<close>. The literal \<^verbatim>\<open>1\<close> is an
  \<^verbatim>\<open>int\<close>, so the shift is done on 32 bits and its \<^verbatim>\<open>int\<close> result is converted to
  \<^verbatim>\<open>uint64_t\<close>, with sign extension, by the \<^verbatim>\<open>|=\<close>.
  \<open>shl_int_1\<close> is that shift: a count of 32 or more is undefined behaviour in C and
  is \<open>None\<close> here; a count of 31 gives the bit pattern of \<^verbatim>\<open>INT_MIN\<close>, the value
  that compilers for two's-complement targets produce.
\<close>

definition shl_int_1 :: "32 word \<Rightarrow> 32 word option" where
  "shl_int_1 ch = (if ch < 32 then Some (push_bit (unat ch) 1) else None)"

text \<open>The conversion of an \<^verbatim>\<open>int\<close> to \<^verbatim>\<open>uint64_t\<close>.\<close>

definition int_to_uint64 :: "32 word \<Rightarrow> 64 word" where
  "int_to_uint64 v = scast v"

text \<open>
  \<^verbatim>\<open>if (ch > SEL4CP_MAX_CHANNELS) { sel4cp_dbg_puts(...); return; }
  sim_notified |= (1 << ch);\<close>
  The result is \<open>None\<close> where the C has no defined behaviour.
\<close>

definition sel4cp_notify :: "sel4cp_channel \<Rightarrow> sim_state \<Rightarrow> sim_state option" where
  "sel4cp_notify ch s =
     (if ch > SEL4CP_MAX_CHANNELS
      then Some (sel4cp_dbg_puts ''[MOCK] sel4cp_notify: ch too large\<newline>'' s)
      else case shl_int_1 ch of
             None \<Rightarrow> None
           | Some b \<Rightarrow> Some (s\<lparr>sim_notified := sim_notified s OR int_to_uint64 b\<rparr>))"

definition sel4cp_irq_ack :: "sel4cp_channel \<Rightarrow> sim_state \<Rightarrow> sim_state option" where
  "sel4cp_irq_ack ch s =
     (if ch > SEL4CP_MAX_CHANNELS
      then Some (sel4cp_dbg_puts ''[MOCK] sel4cp_irq_ack: ch too large\<newline>'' s)
      else case shl_int_1 ch of
             None \<Rightarrow> None
           | Some b \<Rightarrow> Some (s\<lparr>sim_irq_acked := sim_irq_acked s OR int_to_uint64 b\<rparr>))"

subsection \<open>The scripted scenario: \<^verbatim>\<open>simulate\<close>\<close>

text \<open>
  \<^verbatim>\<open>simulate\<close> is a sequence of \<^verbatim>\<open>if (sim_stage == k) { ... }\<close> blocks run one
  after the other on the globals, so a block sees the stage that an earlier block of
  the same call has just set. Each block is one function on the state and
  \<open>simulate\<close> composes them in the order of the source.
\<close>

text \<open>
  Stage 0, client1 makes a ppcall:
  \<^verbatim>\<open>sim_return_badge = 9223372036854775808ull; sim_return_badge |= 1; sim_stage = 1;\<close>
\<close>

definition stage0 :: "sim_state \<Rightarrow> sim_state" where
  "stage0 s =
     (if sim_stage s = 0
      then s\<lparr>sim_return_badge := 9223372036854775808 OR 1, sim_stage := 1\<rparr>
      else s)"

text \<open>Stage 1, client1 waits for a positive response:
  \<^verbatim>\<open>if (sim_reply_label == 1) { sim_stage = 2; }\<close>\<close>

definition stage1 :: "sim_state \<Rightarrow> sim_state" where
  "stage1 s =
     (if sim_stage s = 1
      then (if sim_reply_label s = 1 then s\<lparr>sim_stage := 2\<rparr> else s)
      else s)"

text \<open>The statements of the two PIN-entry blocks (stages 2 and 5), in source order.\<close>

text \<open>\<^verbatim>\<open>if (sim_irq_delay > 1) sim_irq_delay--;\<close>\<close>

definition irq_countdown :: "sim_state \<Rightarrow> sim_state" where
  "irq_countdown s =
     (if sim_irq_delay s > 1 then s\<lparr>sim_irq_delay := sim_irq_delay s - 1\<rparr> else s)"

text \<open>
  \<^verbatim>\<open>if (sim_irq_delay == 1) { sim_irq_delay = 0; sim_pinpad_input[0] = sim_next_digit;
     sim_return_badge = 0; sim_return_badge |= 1; }\<close>
  The store into the \<^verbatim>\<open>uint8_t\<close> buffer keeps the low 8 bits of the counter.
\<close>

definition irq_fire :: "sim_state \<Rightarrow> sim_state" where
  "irq_fire s =
     (if sim_irq_delay s = 1
      then s\<lparr>sim_irq_delay := 0, sim_pinpad_input := ucast (sim_next_digit s),
             sim_return_badge := 0 OR 1\<rparr>
      else s)"

text \<open>
  \<^verbatim>\<open>if (sim_irq_delay == 0) { if (sim_irq_acked & 1) { sim_next_digit--;
     sim_irq_delay = reload; } }\<close>
  with \<^verbatim>\<open>reload\<close> 5000000 in stage 2 and 7500000 in stage 5.
\<close>

definition irq_unmask :: "64 word \<Rightarrow> sim_state \<Rightarrow> sim_state" where
  "irq_unmask reload s =
     (if sim_irq_delay s = 0
      then (if sim_irq_acked s AND 1 \<noteq> 0
            then s\<lparr>sim_next_digit := sim_next_digit s - 1, sim_irq_delay := reload\<rparr>
            else s)
      else s)"

text \<open>\<^verbatim>\<open>if (sim_next_digit < 2) { sim_stage = next; }\<close>\<close>

definition digits_done :: "64 word \<Rightarrow> sim_state \<Rightarrow> sim_state" where
  "digits_done next s = (if sim_next_digit s < 2 then s\<lparr>sim_stage := next\<rparr> else s)"

text \<open>Stage 2, the user enters the PIN (generates IRQs).\<close>

definition stage2 :: "sim_state \<Rightarrow> sim_state" where
  "stage2 s =
     (if sim_stage s = 2
      then digits_done 3 (irq_unmask 5000000 (irq_fire (irq_countdown s)))
      else s)"

text \<open>
  Stage 3, client 1 awaits a notification and then client2 makes a ppcall:
  \<^verbatim>\<open>if (sim_notified & 2) { sim_return_badge = 9223372036854775808ull;
     sim_return_badge |= 2; sim_stage = 4; sim_reply_label = 0; }\<close>
\<close>

definition stage3 :: "sim_state \<Rightarrow> sim_state" where
  "stage3 s =
     (if sim_stage s = 3
      then (if sim_notified s AND 2 \<noteq> 0
            then s\<lparr>sim_return_badge := 9223372036854775808 OR 2, sim_stage := 4,
                   sim_reply_label := 0\<rparr>
            else s)
      else s)"

text \<open>
  Stage 4, client2 waits for a positive response:
  \<^verbatim>\<open>debug = 1; if (sim_reply_label == 1) { sim_irq_delay = 10000;
     sim_next_digit = 5; sim_stage = 5; }\<close>
\<close>

definition stage4 :: "sim_state \<Rightarrow> sim_state" where
  "stage4 s =
     (if sim_stage s = 4
      then (let s1 = s\<lparr>debug := 1\<rparr>
            in if sim_reply_label s1 = 1
               then s1\<lparr>sim_irq_delay := 10000, sim_next_digit := 5, sim_stage := 5\<rparr>
               else s1)
      else s)"

text \<open>
  Stage 5, the user enters the PIN while client 1 interferes. Between the countdown
  and the interrupt the block has
  \<^verbatim>\<open>if (sim_irq_delay == 100) { sim_return_badge = 9223372036854775808ull;
     sim_return_badge |= 1; }\<close>
\<close>

definition ppcall_at_100 :: "sim_state \<Rightarrow> sim_state" where
  "ppcall_at_100 s =
     (if sim_irq_delay s = 100
      then s\<lparr>sim_return_badge := 9223372036854775808 OR 1\<rparr>
      else s)"

definition stage5 :: "sim_state \<Rightarrow> sim_state" where
  "stage5 s =
     (if sim_stage s = 5
      then digits_done 6
             (irq_unmask 7500000 (irq_fire (ppcall_at_100 (irq_countdown (s\<lparr>debug := 0\<rparr>)))))
      else s)"

text \<open>
  The whole function. A call of type ppcall returns at once; every other call runs the
  six blocks. Both paths return \<^verbatim>\<open>sel4cp_msginfo_new(0, 0)\<close>; stage 6 has no block.
\<close>

definition simulate :: "sim_state \<Rightarrow> sel4cp_msginfo \<times> sim_state" where
  "simulate s =
     (if sim_calltype s = SIM_CALLTYPE_PPCALL
      then (sel4cp_msginfo_new 0 0, s)
      else (sel4cp_msginfo_new 0 0,
            stage5 (stage4 (stage3 (stage2 (stage1 (stage0 s)))))))"

subsection \<open>Calls that run the scenario\<close>

text \<open>
  \<^verbatim>\<open>sel4cp_ppcall\<close>: the range check only prints, then
  \<^verbatim>\<open>sim_tick += 1; sim_ppcalled = ch; sim_calltype = SIM_CALLTYPE_PPCALL;
  sim_reply_label = sel4cp_msginfo_get_label(msginfo); return simulate();\<close>
\<close>

definition sel4cp_ppcall ::
  "sel4cp_channel \<Rightarrow> sel4cp_msginfo \<Rightarrow> sim_state \<Rightarrow> sel4cp_msginfo \<times> sim_state" where
  "sel4cp_ppcall ch msginfo s =
     (let s1 = (if ch > SEL4CP_MAX_CHANNELS
                then sel4cp_dbg_puts ''[MOCK] sel4cp_ppcall: ch too large\<newline>'' s
                else s);
          s2 = s1\<lparr>sim_tick := sim_tick s1 + 1, sim_ppcalled := ucast ch,
                  sim_calltype := SIM_CALLTYPE_PPCALL,
                  sim_reply_label := sel4cp_msginfo_get_label msginfo\<rparr>
      in simulate s2)"

text \<open>
  The flags are cleared after \<^verbatim>\<open>simulate\<close> has returned:
  \<^verbatim>\<open>*sender = sim_return_badge; sim_notified = 0; sim_irq_acked = 0; sim_ppcalled = 0;\<close>
  The two receive calls return the message info, the badge stored through
  \<^verbatim>\<open>sender\<close>, and the state.
\<close>

definition clear_flags :: "sim_state \<Rightarrow> sim_state" where
  "clear_flags s = s\<lparr>sim_notified := 0, sim_irq_acked := 0, sim_ppcalled := 0\<rparr>"

definition seL4_Recv :: "64 word \<Rightarrow> sim_state \<Rightarrow> (seL4_MessageInfo_t \<times> 64 word) \<times> sim_state" where
  "seL4_Recv src s =
     (let s1 = s\<lparr>sim_tick := sim_tick s + 1, sim_calltype := SIM_CALLTYPE_RECV,
                 sim_return_badge := 0\<rparr>;
          (ret, s2) = simulate s1
      in ((ret, sim_return_badge s2), clear_flags s2))"

definition seL4_ReplyRecv ::
  "64 word \<Rightarrow> seL4_MessageInfo_t \<Rightarrow> sim_state \<Rightarrow> (seL4_MessageInfo_t \<times> 64 word) \<times> sim_state" where
  "seL4_ReplyRecv src reply_tag s =
     (let s1 = s\<lparr>sim_tick := sim_tick s + 1, sim_calltype := SIM_CALLTYPE_REPLYRECV,
                 sim_reply_label := sel4cp_msginfo_get_label reply_tag,
                 sim_return_badge := 0\<rparr>;
          (ret, s2) = simulate s1
      in ((ret, sim_return_badge s2), clear_flags s2))"

subsection \<open>The libmantle wrappers\<close>

definition mantle_notify :: "sel4cp_channel \<Rightarrow> sim_state \<Rightarrow> (64 word \<times> sim_state) option" where
  "mantle_notify ch s = map_option (\<lambda>s'. (0, s')) (sel4cp_notify ch s)"

definition mantle_irq_ack :: "sel4cp_channel \<Rightarrow> sim_state \<Rightarrow> (64 word \<times> sim_state) option" where
  "mantle_irq_ack ch s = map_option (\<lambda>s'. (0, s')) (sel4cp_irq_ack ch s)"

definition mantle_get_ret_count :: "sim_state \<Rightarrow> 16 word" where
  "mantle_get_ret_count s = mantle_ret_count s"

definition mantle_get_ret_badge :: "sim_state \<Rightarrow> 64 word" where
  "mantle_get_ret_badge s = mantle_ret_badge s"

text \<open>
  \<^verbatim>\<open>sel4cp_msginfo msginfo = sel4cp_msginfo_new(msginfo_label, msginfo_count);
  sel4cp_msginfo ret = sel4cp_ppcall(ch, msginfo);
  mantle_ret_count = seL4_MessageInfo_get_length(msginfo);
  return sel4cp_msginfo_get_label(ret);\<close>
  The count is taken from \<^verbatim>\<open>msginfo\<close>, the request.
\<close>

definition mantle_ppcall ::
  "sel4cp_channel \<Rightarrow> 64 word \<Rightarrow> 16 word \<Rightarrow> sim_state \<Rightarrow> 64 word \<times> sim_state" where
  "mantle_ppcall ch msginfo_label msginfo_count s =
     (let msginfo = sel4cp_msginfo_new msginfo_label msginfo_count;
          (ret, s1) = sel4cp_ppcall ch msginfo s;
          s2 = s1\<lparr>mantle_ret_count := ucast (seL4_MessageInfo_get_length msginfo)\<rparr>
      in (sel4cp_msginfo_get_label ret, s2))"

text \<open>
  \<^verbatim>\<open>sel4cp_msginfo ret = seL4_Recv(1, &mantle_ret_badge);
  mantle_ret_count = seL4_MessageInfo_get_length(ret);
  return sel4cp_msginfo_get_label(ret);\<close>
\<close>

definition mantle_recv :: "sim_state \<Rightarrow> 64 word \<times> sim_state" where
  "mantle_recv s =
     (let ((ret, badge), s1) = seL4_Recv 1 s;
          s2 = s1\<lparr>mantle_ret_badge := badge\<rparr>;
          s3 = s2\<lparr>mantle_ret_count := ucast (seL4_MessageInfo_get_length ret)\<rparr>
      in (sel4cp_msginfo_get_label ret, s3))"

definition mantle_replyrecv :: "64 word \<Rightarrow> 16 word \<Rightarrow> sim_state \<Rightarrow> 64 word \<times> sim_state" where
  "mantle_replyrecv reply_tag_label reply_tag_count s =
     (let reply_tag = sel4cp_msginfo_new reply_tag_label reply_tag_count;
          ((ret, badge), s1) = seL4_ReplyRecv 1 reply_tag s;
          s2 = s1\<lparr>mantle_ret_badge := badge\<rparr>;
          s3 = s2\<lparr>mantle_ret_count := ucast (seL4_MessageInfo_get_length ret)\<rparr>
      in (sel4cp_msginfo_get_label ret, s3))"

subsection \<open>Sequences of calls\<close>

text \<open>
  The protection domain under test is a client that makes API calls one after the
  other. \<open>api_step\<close> performs one call and returns what the C function hands back:
  nothing for \<^verbatim>\<open>sel4cp_notify\<close> and \<^verbatim>\<open>sel4cp_irq_ack\<close>, the message info for
  \<^verbatim>\<open>sel4cp_ppcall\<close>, the message info and the badge stored through \<^verbatim>\<open>sender\<close> for
  the two receive calls. \<open>run_calls\<close> performs a list of calls in order and collects
  the replies; it stops in front of a call whose behaviour C leaves undefined.
\<close>

datatype api_call =
    Notify sel4cp_channel
  | IrqAck sel4cp_channel
  | PPCall sel4cp_channel sel4cp_msginfo
  | Recv "64 word"
  | ReplyRecv "64 word" seL4_MessageInfo_t

type_synonym reply = "seL4_MessageInfo_t \<times> 64 word option"

fun api_step :: "api_call \<Rightarrow> sim_state \<Rightarrow> (reply list \<times> sim_state) option" where
  "api_step (Notify ch) s = map_option (\<lambda>s'. ([], s')) (sel4cp_notify ch s)"
| "api_step (IrqAck ch) s = map_option (\<lambda>s'. ([], s')) (sel4cp_irq_ack ch s)"
| "api_step (PPCall ch msginfo) s =
     (let (ret, s') = sel4cp_ppcall ch msginfo s in Some ([(ret, None)], s'))"
| "api_step (Recv src) s =
     (let ((ret, badge), s') = seL4_Recv src s in Some ([(ret, Some badge)], s'))"
| "api_step (ReplyRecv src reply_tag) s =
     (let ((ret, badge), s') = seL4_ReplyRecv src reply_tag s
      in Some ([(ret, Some badge)], s'))"

fun run_calls :: "api_call list \<Rightarrow> sim_state \<Rightarrow> reply list \<times> sim_state" where
  "run_calls [] s = ([], s)"
| "run_calls (c # cs) s =
     (case api_step c s of
        None \<Rightarrow> ([], s)
      | Some (rs, s') \<Rightarrow> (let (rs', s'') = run_calls cs s' in (rs @ rs', s'')))"

text \<open>The calls that wait for the next event, and the badges a run has delivered.\<close>

fun is_wait :: "api_call \<Rightarrow> bool" where
  "is_wait (Recv src) = True"
| "is_wait (ReplyRecv src reply_tag) = True"
| "is_wait c = False"

definition badges :: "reply list \<times> sim_state \<Rightarrow> 64 word option list" where
  "badges r = map snd (fst r)"

text \<open>
  The state in which a receive call enters \<^verbatim>\<open>simulate\<close>: the assignments that
  \<^verbatim>\<open>seL4_Recv\<close> and \<^verbatim>\<open>seL4_ReplyRecv\<close> make before the call.
\<close>

fun wait_entry :: "api_call \<Rightarrow> sim_state \<Rightarrow> sim_state" where
  "wait_entry (ReplyRecv src reply_tag) s =
     s\<lparr>sim_tick := sim_tick s + 1, sim_calltype := SIM_CALLTYPE_REPLYRECV,
       sim_reply_label := sel4cp_msginfo_get_label reply_tag, sim_return_badge := 0\<rparr>"
| "wait_entry c s =
     s\<lparr>sim_tick := sim_tick s + 1, sim_calltype := SIM_CALLTYPE_RECV,
       sim_return_badge := 0\<rparr>"

text \<open>
  The two PIN-entry stages: stage 2, which hands over to stage 3, and stage 5, which
  hands over to stage 6.
\<close>

definition pin_stage :: "sim_state \<Rightarrow> bool" where
  "pin_stage s = (sim_stage s = 2 \<or> sim_stage s = 5)"

text \<open>The interrupt of the pinpad as a reply: a plain notification with bit 0 set.\<close>

definition irq_badge :: "64 word option" where
  "irq_badge = Some 1"

text \<open>
  What a receive call leaves behind and what it delivers: the state after the flags
  have been cleared, and the badge.
\<close>

definition wait_state :: "api_call \<Rightarrow> sim_state \<Rightarrow> sim_state" where
  "wait_state c s = clear_flags (snd (simulate (wait_entry c s)))"

definition wait_badge :: "api_call \<Rightarrow> sim_state \<Rightarrow> 64 word" where
  "wait_badge c s = sim_return_badge (snd (simulate (wait_entry c s)))"

text \<open>
  Example states: the first PIN-entry stage with the timer at \<open>D\<close>, the second
  PIN-entry stage with the interrupt masked, and the terminal stage; everything else
  as at start-up.
\<close>

definition pin_entry :: "64 word \<Rightarrow> sim_state" where
  "pin_entry D = sim_init\<lparr>sim_stage := 2, sim_irq_delay := D\<rparr>"

definition pin_masked_state :: sim_state where
  "pin_masked_state = sim_init\<lparr>sim_stage := 5, sim_irq_delay := 0\<rparr>"

definition terminal_state :: sim_state where
  "terminal_state = sim_init\<lparr>sim_stage := 6\<rparr>"

section \<open>Message encoding: round trip\<close>

lemma mask52: "(0xfffffffffffff :: 64 word) = mask 52"
  by (simp add: mask_eq_exp_minus_1)

lemma mask7: "(0x7f :: 64 word) = mask 7"
  by (simp add: mask_eq_exp_minus_1)

lemma mask3: "(0x7 :: 64 word) = mask 3"
  by (simp add: mask_eq_exp_minus_1)

lemma mask2: "(0x3 :: 64 word) = mask 2"
  by (simp add: mask_eq_exp_minus_1)

lemma mask_label_field: "(0xfffffffffffff000 :: 64 word) = push_bit 12 (mask 52)"
  by (simp add: mask_eq_exp_minus_1)

lemma get_label_new:
  "seL4_MessageInfo_get_label (seL4_MessageInfo_new l c e n) = l AND mask 52"
  unfolding seL4_MessageInfo_get_label_def seL4_MessageInfo_new_def
    mask52 mask7 mask3 mask2 mask_label_field
  apply simp
  apply (rule bit_word_eqI)
  apply (auto simp add: bit_simps)
  done

lemma get_length_new:
  "seL4_MessageInfo_get_length (seL4_MessageInfo_new l c e n) = n AND mask 7"
  unfolding seL4_MessageInfo_get_length_def seL4_MessageInfo_new_def
    mask52 mask7 mask3 mask2 mask_label_field
  apply simp
  apply (rule bit_word_eqI)
  apply (auto simp add: bit_simps)
  done

text \<open>
  C6: decoding an encoded word gives back the label masked to 52 bits and the length
  masked to 7 bits, whatever the two capability fields are; so a label below \<open>2^52\<close>
  and a length below \<open>2^7\<close> come back unchanged, and larger values are truncated,
  never rejected.
\<close>

theorem encode_decode_roundtrip:
  "seL4_MessageInfo_get_label (seL4_MessageInfo_new l c e n) = l AND 0xfffffffffffff
   \<and> seL4_MessageInfo_get_length (seL4_MessageInfo_new l c e n) = n AND 0x7f
   \<and> (l < 2 ^ 52 \<longrightarrow> seL4_MessageInfo_get_label (seL4_MessageInfo_new l c e n) = l)
   \<and> (n < 2 ^ 7 \<longrightarrow> seL4_MessageInfo_get_length (seL4_MessageInfo_new l c e n) = n)"
proof -
  have a: "seL4_MessageInfo_get_label (seL4_MessageInfo_new l c e n) = l AND mask 52"
    by (rule get_label_new)
  have b: "seL4_MessageInfo_get_length (seL4_MessageInfo_new l c e n) = n AND mask 7"
    by (rule get_length_new)
  have c: "l < 2 ^ 52 \<Longrightarrow> l AND mask 52 = l"
    by (rule less_mask_eq)
  have d: "n < 2 ^ 7 \<Longrightarrow> n AND mask 7 = n"
    by (rule less_mask_eq)
  show ?thesis using a b c d by (simp add: mask52 mask7)
qed

theorem encode_decode_roundtrip_witness:
  "(0x123456789abcd :: 64 word) < 2 ^ 52 \<and> (100 :: 64 word) < 2 ^ 7
   \<and> seL4_MessageInfo_get_label (seL4_MessageInfo_new 0x123456789abcd 7 3 100)
       = 0x123456789abcd
   \<and> seL4_MessageInfo_get_length (seL4_MessageInfo_new 0x123456789abcd 7 3 100) = 100
   \<and> seL4_MessageInfo_get_label (seL4_MessageInfo_new 0xfff0000000000001 0 0 0x85) = 1
   \<and> seL4_MessageInfo_get_length (seL4_MessageInfo_new 0xfff0000000000001 0 0 0x85) = 5"
  using encode_decode_roundtrip [of "0x123456789abcd" 7 3 100]
    encode_decode_roundtrip [of "0xfff0000000000001" 0 0 "0x85"]
  by simp

section \<open>What one call returns\<close>

lemma empty_msginfo: "sel4cp_msginfo_new 0 0 = \<lparr>words0 = 0\<rparr>"
  by (simp add: sel4cp_msginfo_new_def seL4_MessageInfo_new_def)

lemma empty_label: "seL4_MessageInfo_get_label \<lparr>words0 = 0\<rparr> = 0"
  by (simp add: seL4_MessageInfo_get_label_def)

lemma empty_length: "seL4_MessageInfo_get_length \<lparr>words0 = 0\<rparr> = 0"
  by (simp add: seL4_MessageInfo_get_length_def)

lemma simulate_ret: "fst (simulate s) = \<lparr>words0 = 0\<rparr>"
  by (simp add: simulate_def empty_msginfo)

lemma simulate_wait:
  "sim_calltype e \<noteq> SIM_CALLTYPE_PPCALL \<Longrightarrow>
     snd (simulate e) = stage5 (stage4 (stage3 (stage2 (stage1 (stage0 e)))))"
  by (simp add: simulate_def)

lemma simulate_ppcall: "sim_calltype e = SIM_CALLTYPE_PPCALL \<Longrightarrow> snd (simulate e) = e"
  by (simp add: simulate_def)

lemma wait_entry_calltype: "sim_calltype (wait_entry c s) \<noteq> SIM_CALLTYPE_PPCALL"
  by (cases c)
    (simp_all add: SIM_CALLTYPE_PPCALL_def SIM_CALLTYPE_RECV_def SIM_CALLTYPE_REPLYRECV_def)

lemma recv_eq:
  "seL4_Recv src s =
     ((\<lparr>words0 = 0\<rparr>, sim_return_badge (snd (simulate (wait_entry (Recv src) s)))),
      clear_flags (snd (simulate (wait_entry (Recv src) s))))"
  using simulate_ret [of "wait_entry (Recv src) s"]
  by (simp add: seL4_Recv_def Let_def case_prod_unfold)

lemma replyrecv_eq:
  "seL4_ReplyRecv src t s =
     ((\<lparr>words0 = 0\<rparr>, sim_return_badge (snd (simulate (wait_entry (ReplyRecv src t) s)))),
      clear_flags (snd (simulate (wait_entry (ReplyRecv src t) s))))"
  using simulate_ret [of "wait_entry (ReplyRecv src t) s"]
  by (simp add: seL4_ReplyRecv_def Let_def case_prod_unfold)

lemma ppcall_eq:
  "sel4cp_ppcall ch m s =
     (\<lparr>words0 = 0\<rparr>,
      (if ch > SEL4CP_MAX_CHANNELS
       then sel4cp_dbg_puts ''[MOCK] sel4cp_ppcall: ch too large\<newline>'' s else s)
      \<lparr>sim_tick := sim_tick s + 1, sim_ppcalled := ucast ch,
       sim_calltype := SIM_CALLTYPE_PPCALL,
       sim_reply_label := sel4cp_msginfo_get_label m\<rparr>)"
  by (simp add: sel4cp_ppcall_def Let_def simulate_def empty_msginfo sel4cp_dbg_puts_def)

text \<open>
  C5: after \<^verbatim>\<open>seL4_Recv\<close> or \<^verbatim>\<open>seL4_ReplyRecv\<close> has returned (directly or through
  the wrappers \<^verbatim>\<open>mantle_recv\<close> and \<^verbatim>\<open>mantle_replyrecv\<close>), the notified flags, the
  acknowledged-interrupt flags and the pending-call channel are all 0, whatever the
  state before the call and whatever the scenario did.
\<close>

theorem recv_clears_flags:
  "sim_notified (snd (seL4_Recv src s)) = 0
   \<and> sim_irq_acked (snd (seL4_Recv src s)) = 0
   \<and> sim_ppcalled (snd (seL4_Recv src s)) = 0
   \<and> sim_notified (snd (seL4_ReplyRecv src reply_tag s)) = 0
   \<and> sim_irq_acked (snd (seL4_ReplyRecv src reply_tag s)) = 0
   \<and> sim_ppcalled (snd (seL4_ReplyRecv src reply_tag s)) = 0
   \<and> sim_notified (snd (mantle_recv s)) = 0
   \<and> sim_irq_acked (snd (mantle_recv s)) = 0
   \<and> sim_ppcalled (snd (mantle_recv s)) = 0
   \<and> sim_notified (snd (mantle_replyrecv l c s)) = 0
   \<and> sim_irq_acked (snd (mantle_replyrecv l c s)) = 0
   \<and> sim_ppcalled (snd (mantle_replyrecv l c s)) = 0"
  by (simp add: mantle_recv_def mantle_replyrecv_def recv_eq replyrecv_eq clear_flags_def
      Let_def)

text \<open>
  C10: every \<^verbatim>\<open>sel4cp_ppcall\<close> returns the empty message info, label 0 and length 0,
  in every state and stage, and leaves the stage where it was: the function sets the
  call type to ppcall itself before it calls \<^verbatim>\<open>simulate\<close>. The label that
  \<^verbatim>\<open>mantle_ppcall\<close> returns is therefore 0 as well.
\<close>

theorem ppcall_always_empty:
  "fst (sel4cp_ppcall ch msginfo s) = \<lparr>words0 = 0\<rparr>
   \<and> seL4_MessageInfo_get_label (fst (sel4cp_ppcall ch msginfo s)) = 0
   \<and> seL4_MessageInfo_get_length (fst (sel4cp_ppcall ch msginfo s)) = 0
   \<and> sim_calltype (snd (sel4cp_ppcall ch msginfo s)) = SIM_CALLTYPE_PPCALL
   \<and> sim_stage (snd (sel4cp_ppcall ch msginfo s)) = sim_stage s
   \<and> fst (mantle_ppcall ch l c s) = 0"
  by (simp add: ppcall_eq empty_label empty_length mantle_ppcall_def Let_def
      sel4cp_msginfo_get_label_def sel4cp_dbg_puts_def)

text \<open>
  C4: when the recorded call type is already ppcall, \<^verbatim>\<open>simulate\<close> returns the empty
  message info without touching the state, and a \<^verbatim>\<open>sel4cp_ppcall\<close> made in such a
  state returns label 0 and length 0, in every stage.
\<close>

theorem nested_ppcall_empty:
  "sim_calltype s = SIM_CALLTYPE_PPCALL \<Longrightarrow>
     simulate s = (sel4cp_msginfo_new 0 0, s)
     \<and> seL4_MessageInfo_get_label (fst (sel4cp_ppcall ch msginfo s)) = 0
     \<and> seL4_MessageInfo_get_length (fst (sel4cp_ppcall ch msginfo s)) = 0"
  by (simp add: ppcall_eq empty_label empty_length simulate_def)

theorem nested_ppcall_empty_witness:
  "sim_calltype (snd (sel4cp_ppcall 1 (sel4cp_msginfo_new 7 2) (sim_init\<lparr>sim_stage := 3\<rparr>)))
     = SIM_CALLTYPE_PPCALL
   \<and> seL4_MessageInfo_get_label
        (fst (sel4cp_ppcall 2 (sel4cp_msginfo_new 9 1)
           (snd (sel4cp_ppcall 1 (sel4cp_msginfo_new 7 2) (sim_init\<lparr>sim_stage := 3\<rparr>))))) = 0
   \<and> seL4_MessageInfo_get_length
        (fst (sel4cp_ppcall 2 (sel4cp_msginfo_new 9 1)
           (snd (sel4cp_ppcall 1 (sel4cp_msginfo_new 7 2) (sim_init\<lparr>sim_stage := 3\<rparr>))))) = 0"
proof -
  have h: "sim_calltype
             (snd (sel4cp_ppcall 1 (sel4cp_msginfo_new 7 2) (sim_init\<lparr>sim_stage := 3\<rparr>)))
           = SIM_CALLTYPE_PPCALL"
    by (simp add: ppcall_eq)
  show ?thesis
    using h nested_ppcall_empty [OF h, of 2 "sel4cp_msginfo_new 9 1"] by simp
qed

text \<open>
  C7: the first \<^verbatim>\<open>seL4_Recv\<close> from the initial state (stage 0) delivers the badge
  \<^verbatim>\<open>0x8000000000000001\<close>: bit 63 is set and the remaining 63 bits are the channel
  number 1. \<^verbatim>\<open>mantle_recv\<close> leaves the same badge in \<^verbatim>\<open>mantle_ret_badge\<close>, and the
  scenario is in stage 1 afterwards.
\<close>

theorem first_recv_invites_on_channel_1:
  "snd (fst (seL4_Recv src sim_init)) = 0x8000000000000001
   \<and> bit (snd (fst (seL4_Recv src sim_init))) 63
   \<and> take_bit 63 (snd (fst (seL4_Recv src sim_init))) = 1
   \<and> sim_stage (snd (seL4_Recv src sim_init)) = 1
   \<and> mantle_get_ret_badge (snd (mantle_recv sim_init)) = 0x8000000000000001"
  by (simp add: seL4_Recv_def mantle_recv_def mantle_get_ret_badge_def sim_init_def
      simulate_def stage0_def stage1_def stage2_def stage3_def stage4_def stage5_def
      SIM_CALLTYPE_RECV_def SIM_CALLTYPE_PPCALL_def clear_flags_def Let_def)

text \<open>
  C3: \<^verbatim>\<open>mantle_ppcall\<close> takes \<^verbatim>\<open>mantle_ret_count\<close> from the request it has just
  built, not from the response. With request count 5 in the initial state the count
  read back by \<^verbatim>\<open>mantle_get_ret_count\<close> is 5, while the length field of the response
  of \<^verbatim>\<open>sel4cp_ppcall\<close> is 0; the returned label is the response's label, 0.
\<close>

theorem mantle_ppcall_ret_count_from_request:
  "mantle_get_ret_count (snd (mantle_ppcall 0 0 5 sim_init)) = 5
   \<and> seL4_MessageInfo_get_length (fst (sel4cp_ppcall 0 (sel4cp_msginfo_new 0 5) sim_init)) = 0
   \<and> fst (mantle_ppcall 0 0 5 sim_init)
       = seL4_MessageInfo_get_label (fst (sel4cp_ppcall 0 (sel4cp_msginfo_new 0 5) sim_init))"
  by (simp add: mantle_ppcall_def ppcall_eq mantle_get_ret_count_def empty_length Let_def
      sel4cp_msginfo_new_def seL4_MessageInfo_new_def seL4_MessageInfo_get_length_def
      sel4cp_msginfo_get_label_def)

section \<open>Channels and flag bits\<close>

lemma scast_bit_low:
  "n < 31 \<Longrightarrow> (scast (push_bit n (1 :: 32 word)) :: 64 word) = push_bit n 1"
  by (rule bit_word_eqI) (auto simp add: bit_simps)

lemma shl_int_1_low:
  assumes "ch < 31"
  shows "map_option int_to_uint64 (shl_int_1 ch) = Some (push_bit (unat ch) 1)"
proof -
  have n: "unat ch < 31" using assms by unat_arith
  have c: "ch < 32" using assms by unat_arith
  have a: "shl_int_1 ch = Some (push_bit (unat ch) 1)"
    using c by (simp only: shl_int_1_def if_True)
  have b: "int_to_uint64 (push_bit (unat ch) 1) = push_bit (unat ch) 1"
    unfolding int_to_uint64_def by (rule scast_bit_low [OF n])
  show ?thesis
    by (simp only: a b option.map)
qed

text \<open>
  Channels 0 to 30 set exactly their own bit; channels above 63 only leave a
  diagnostic behind.
\<close>

lemma notify_low_channels:
  assumes "ch < 31"
  shows "sel4cp_notify ch s = Some (s\<lparr>sim_notified := sim_notified s OR push_bit (unat ch) 1\<rparr>)"
    and "sel4cp_irq_ack ch s = Some (s\<lparr>sim_irq_acked := sim_irq_acked s OR push_bit (unat ch) 1\<rparr>)"
proof -
  have r: "\<not> ch > SEL4CP_MAX_CHANNELS"
    using assms unfolding SEL4CP_MAX_CHANNELS_def by unat_arith
  obtain b where b: "shl_int_1 ch = Some b" "int_to_uint64 b = push_bit (unat ch) 1"
    using shl_int_1_low [OF assms] by auto
  show "sel4cp_notify ch s = Some (s\<lparr>sim_notified := sim_notified s OR push_bit (unat ch) 1\<rparr>)"
    using r b by (simp add: sel4cp_notify_def)
  show "sel4cp_irq_ack ch s = Some (s\<lparr>sim_irq_acked := sim_irq_acked s OR push_bit (unat ch) 1\<rparr>)"
    using r b by (simp add: sel4cp_irq_ack_def)
qed

lemma notify_out_of_range:
  assumes "ch > 63"
  shows "sel4cp_notify ch s = Some (s\<lparr>dbg_log := dbg_log s @ [''[MOCK] sel4cp_notify: ch too large\<newline>'']\<rparr>)"
    and "sel4cp_irq_ack ch s = Some (s\<lparr>dbg_log := dbg_log s @ [''[MOCK] sel4cp_irq_ack: ch too large\<newline>'']\<rparr>)"
  using assms
  by (simp_all add: sel4cp_notify_def sel4cp_irq_ack_def SEL4CP_MAX_CHANNELS_def sel4cp_dbg_puts_def)

text \<open>
  C2: the flag is computed as \<^verbatim>\<open>(1 << ch)\<close> on a 32-bit \<^verbatim>\<open>int\<close>. For channel 31
  the result is negative and its conversion to 64 bits sets bits 31 to 63 of the flag
  word, not bit 31 alone; for channel 32 the shift has no defined result. Both
  \<^verbatim>\<open>sel4cp_notify\<close> and \<^verbatim>\<open>sel4cp_irq_ack\<close> behave so.
\<close>

theorem notify_high_channels:
  "map_option sim_notified (sel4cp_notify 31 sim_init) = Some 0xFFFFFFFF80000000
   \<and> sel4cp_notify 32 sim_init = None
   \<and> map_option sim_irq_acked (sel4cp_irq_ack 31 sim_init) = Some 0xFFFFFFFF80000000
   \<and> sel4cp_irq_ack 32 sim_init = None"
  by (simp add: sel4cp_notify_def sel4cp_irq_ack_def shl_int_1_def SEL4CP_MAX_CHANNELS_def
      int_to_uint64_def sim_init_def)

section \<open>The PIN-entry stages\<close>

lemmas stage_defs = stage0_def stage1_def stage2_def stage3_def stage4_def stage5_def
  irq_countdown_def irq_fire_def irq_unmask_def digits_done_def ppcall_at_100_def

lemma w_gt1: "2 < (d::64 word) \<Longrightarrow> 1 < d"
  by unat_arith

lemma w_pred_ne1: "2 < (d::64 word) \<Longrightarrow> d - 1 \<noteq> 1"
  by unat_arith

lemma w_pred_ne0: "2 < (d::64 word) \<Longrightarrow> d - 1 \<noteq> 0"
  by unat_arith

lemma w_unat_pred: "2 < (d::64 word) \<Longrightarrow> unat (d - 1) = unat d - 1"
  by unat_arith

lemma w_gt2: "3 \<le> unat (d::64 word) \<Longrightarrow> 2 < d"
  by unat_arith

lemma w_eq2: "unat (d::64 word) = 2 \<Longrightarrow> d = 2"
  by unat_arith

lemma w_digit: "2 \<le> (n::64 word) \<Longrightarrow> \<not> n < 2"
  by unat_arith

text \<open>Statements whose condition is false leave the state as it is.\<close>

lemma irq_countdown_dec:
  "1 < sim_irq_delay x \<Longrightarrow> irq_countdown x = x\<lparr>sim_irq_delay := sim_irq_delay x - 1\<rparr>"
  by (simp add: irq_countdown_def)

lemma irq_countdown_id: "\<not> 1 < sim_irq_delay x \<Longrightarrow> irq_countdown x = x"
  by (simp add: irq_countdown_def)

lemma irq_fire_id: "sim_irq_delay x \<noteq> 1 \<Longrightarrow> irq_fire x = x"
  by (simp add: irq_fire_def)

lemma irq_unmask_id: "sim_irq_delay x \<noteq> 0 \<Longrightarrow> irq_unmask r x = x"
  by (simp add: irq_unmask_def)

lemma irq_unmask_noack: "sim_irq_acked x AND 1 = 0 \<Longrightarrow> irq_unmask r x = x"
  by (simp add: irq_unmask_def)

lemma digits_done_id: "\<not> sim_next_digit x < 2 \<Longrightarrow> digits_done n x = x"
  by (simp add: digits_done_def)

lemma stage0_id: "sim_stage x \<noteq> 0 \<Longrightarrow> stage0 x = x"
  by (simp add: stage0_def)
lemma stage1_id: "sim_stage x \<noteq> 1 \<Longrightarrow> stage1 x = x"
  by (simp add: stage1_def)
lemma stage2_id: "sim_stage x \<noteq> 2 \<Longrightarrow> stage2 x = x"
  by (simp add: stage2_def)
lemma stage3_id: "sim_stage x \<noteq> 3 \<Longrightarrow> stage3 x = x"
  by (simp add: stage3_def)
lemma stage4_id: "sim_stage x \<noteq> 4 \<Longrightarrow> stage4 x = x"
  by (simp add: stage4_def)
lemma stage5_id: "sim_stage x \<noteq> 5 \<Longrightarrow> stage5 x = x"
  by (simp add: stage5_def)

lemma ppcall_at_100_fields:
  "sim_stage (ppcall_at_100 x) = sim_stage x"
  "sim_irq_delay (ppcall_at_100 x) = sim_irq_delay x"
  "sim_next_digit (ppcall_at_100 x) = sim_next_digit x"
  "sim_pinpad_input (ppcall_at_100 x) = sim_pinpad_input x"
  "sim_irq_acked (ppcall_at_100 x) = sim_irq_acked x"
  by (simp_all add: ppcall_at_100_def)

lemma ppcall_at_100_badge:
  "sim_return_badge x \<noteq> 1 \<Longrightarrow> sim_return_badge (ppcall_at_100 x) \<noteq> 1"
  by (simp add: ppcall_at_100_def)

text \<open>\<^verbatim>\<open>simulate\<close> in the two PIN-entry stages.\<close>

lemma simulate_stage2:
  "sim_stage e = 2 \<Longrightarrow> sim_calltype e \<noteq> SIM_CALLTYPE_PPCALL \<Longrightarrow>
     snd (simulate e) =
       stage5 (stage4 (stage3
         (digits_done 3 (irq_unmask 5000000 (irq_fire (irq_countdown e))))))"
  by (simp add: simulate_wait stage0_id stage1_id stage2_def)

lemma simulate_stage5:
  "sim_stage e = 5 \<Longrightarrow> sim_calltype e \<noteq> SIM_CALLTYPE_PPCALL \<Longrightarrow>
     snd (simulate e) =
       digits_done 6
         (irq_unmask 7500000 (irq_fire (ppcall_at_100 (irq_countdown (e\<lparr>debug := 0\<rparr>)))))"
  by (simp add: simulate_wait stage0_id stage1_id stage2_id stage3_id stage4_id stage5_def)

lemma quiet2:
  assumes "sim_stage e = 2" "sim_calltype e \<noteq> SIM_CALLTYPE_PPCALL" "2 < sim_irq_delay e"
    "2 \<le> sim_next_digit e"
  shows "snd (simulate e) = e\<lparr>sim_irq_delay := sim_irq_delay e - 1\<rparr>"
proof -
  let ?x = "e\<lparr>sim_irq_delay := sim_irq_delay e - 1\<rparr>"
  have a: "irq_countdown e = ?x"
    using assms(3) by (simp add: irq_countdown_dec w_gt1)
  have "sim_irq_delay ?x \<noteq> 1"
    using w_pred_ne1 [OF assms(3)] by simp
  then have b: "irq_fire ?x = ?x"
    by (rule irq_fire_id)
  have "sim_irq_delay ?x \<noteq> 0"
    using w_pred_ne0 [OF assms(3)] by simp
  then have c: "irq_unmask 5000000 ?x = ?x"
    by (rule irq_unmask_id)
  have "\<not> sim_next_digit ?x < 2"
    using w_digit [OF assms(4)] by simp
  then have d: "digits_done 3 ?x = ?x"
    by (rule digits_done_id)
  have e: "stage5 (stage4 (stage3 ?x)) = ?x"
    using assms(1) by (simp add: stage3_id stage4_id stage5_id)
  show ?thesis
    by (simp only: simulate_stage2 [OF assms(1,2)] a b c d e)
qed

lemma quiet5:
  assumes "sim_stage e = 5" "sim_calltype e \<noteq> SIM_CALLTYPE_PPCALL" "2 < sim_irq_delay e"
    "2 \<le> sim_next_digit e"
  shows "snd (simulate e) = ppcall_at_100 (e\<lparr>debug := 0, sim_irq_delay := sim_irq_delay e - 1\<rparr>)"
proof -
  let ?x = "e\<lparr>debug := 0, sim_irq_delay := sim_irq_delay e - 1\<rparr>"
  have a: "irq_countdown (e\<lparr>debug := 0\<rparr>) = ?x"
    using assms(3) by (simp add: irq_countdown_dec w_gt1)
  have "sim_irq_delay (ppcall_at_100 ?x) \<noteq> 1"
    using w_pred_ne1 [OF assms(3)] by (simp add: ppcall_at_100_fields)
  then have b: "irq_fire (ppcall_at_100 ?x) = ppcall_at_100 ?x"
    by (rule irq_fire_id)
  have "sim_irq_delay (ppcall_at_100 ?x) \<noteq> 0"
    using w_pred_ne0 [OF assms(3)] by (simp add: ppcall_at_100_fields)
  then have c: "irq_unmask 7500000 (ppcall_at_100 ?x) = ppcall_at_100 ?x"
    by (rule irq_unmask_id)
  have "\<not> sim_next_digit (ppcall_at_100 ?x) < 2"
    using w_digit [OF assms(4)] by (simp add: ppcall_at_100_fields)
  then have d: "digits_done 6 (ppcall_at_100 ?x) = ppcall_at_100 ?x"
    by (rule digits_done_id)
  show ?thesis
    by (simp only: simulate_stage5 [OF assms(1,2)] a b c d)
qed

lemma pin_quiet:
  assumes "pin_stage e" "sim_calltype e \<noteq> SIM_CALLTYPE_PPCALL" "2 < sim_irq_delay e"
    "2 \<le> sim_next_digit e" "sim_return_badge e = 0"
  shows "sim_stage (snd (simulate e)) = sim_stage e
    \<and> sim_irq_delay (snd (simulate e)) = sim_irq_delay e - 1
    \<and> sim_next_digit (snd (simulate e)) = sim_next_digit e
    \<and> sim_pinpad_input (snd (simulate e)) = sim_pinpad_input e
    \<and> sim_return_badge (snd (simulate e)) \<noteq> 1"
proof (cases "sim_stage e = 2")
  case True
  show ?thesis
    using assms(5) by (simp add: quiet2 [OF True assms(2,3,4)])
next
  case False
  then have five: "sim_stage e = 5" using assms(1) by (simp add: pin_stage_def)
  show ?thesis
    using assms(5)
    by (simp add: quiet5 [OF five assms(2,3,4)] ppcall_at_100_fields ppcall_at_100_badge)
qed

lemma wait_step:
  "is_wait c \<Longrightarrow>
     api_step c s = Some ([(\<lparr>words0 = 0\<rparr>, Some (wait_badge c s))], wait_state c s)"
  by (cases c) (simp_all add: recv_eq replyrecv_eq wait_badge_def wait_state_def)

lemma run_wait_Cons:
  "is_wait c \<Longrightarrow>
     run_calls (c # cs) s =
       ((\<lparr>words0 = 0\<rparr>, Some (wait_badge c s)) # fst (run_calls cs (wait_state c s)),
        snd (run_calls cs (wait_state c s)))"
  by (simp add: wait_step case_prod_unfold Let_def del: api_step.simps)

lemma badges_Nil: "badges (run_calls [] s) = []"
  by (simp add: badges_def)

lemma badges_wait_Cons:
  "is_wait c \<Longrightarrow>
     badges (run_calls (c # cs) s) = Some (wait_badge c s) # badges (run_calls cs (wait_state c s))"
  by (simp add: run_wait_Cons badges_def del: run_calls.simps)

lemma final_wait_Cons:
  "is_wait c \<Longrightarrow> snd (run_calls (c # cs) s) = snd (run_calls cs (wait_state c s))"
  by (simp add: run_wait_Cons del: run_calls.simps)

lemma badges_length: "list_all is_wait cs \<Longrightarrow> length (badges (run_calls cs s)) = length cs"
  by (induction cs arbitrary: s) (simp_all add: badges_Nil badges_wait_Cons del: run_calls.simps)

lemma wait_entry_fields:
  "sim_stage (wait_entry c s) = sim_stage s"
  "sim_irq_delay (wait_entry c s) = sim_irq_delay s"
  "sim_next_digit (wait_entry c s) = sim_next_digit s"
  "sim_pinpad_input (wait_entry c s) = sim_pinpad_input s"
  "sim_irq_acked (wait_entry c s) = sim_irq_acked s"
  "sim_return_badge (wait_entry c s) = 0"
  by (cases c; simp)+

lemma clear_flags_fields:
  "sim_stage (clear_flags s) = sim_stage s"
  "sim_irq_delay (clear_flags s) = sim_irq_delay s"
  "sim_next_digit (clear_flags s) = sim_next_digit s"
  "sim_pinpad_input (clear_flags s) = sim_pinpad_input s"
  "sim_irq_acked (clear_flags s) = 0"
  by (simp_all add: clear_flags_def)

lemma pin_stage_entry: "pin_stage (wait_entry c s) = pin_stage s"
  by (simp add: pin_stage_def wait_entry_fields)

lemma wait_quiet:
  assumes "pin_stage s" "2 < sim_irq_delay s" "2 \<le> sim_next_digit s"
  shows "wait_badge c s \<noteq> 1"
    and "sim_stage (wait_state c s) = sim_stage s"
    and "sim_irq_delay (wait_state c s) = sim_irq_delay s - 1"
    and "sim_next_digit (wait_state c s) = sim_next_digit s"
    and "sim_pinpad_input (wait_state c s) = sim_pinpad_input s"
    and "sim_irq_acked (wait_state c s) = 0"
  using pin_quiet [of "wait_entry c s"] assms
  by (simp_all add: wait_badge_def wait_state_def clear_flags_fields wait_entry_fields
      pin_stage_entry wait_entry_calltype)

lemma fire2:
  assumes "sim_stage e = 2" "sim_calltype e \<noteq> SIM_CALLTYPE_PPCALL" "sim_irq_delay e = 2"
    "2 \<le> sim_next_digit e" "sim_irq_acked e AND 1 = 0"
  shows "snd (simulate e) =
    e\<lparr>sim_irq_delay := 0, sim_pinpad_input := ucast (sim_next_digit e), sim_return_badge := 1\<rparr>"
proof -
  let ?x = "e\<lparr>sim_irq_delay := 1\<rparr>"
  let ?y = "e\<lparr>sim_irq_delay := 0, sim_pinpad_input := ucast (sim_next_digit e),
              sim_return_badge := 1\<rparr>"
  have a: "irq_countdown e = ?x"
    using assms(3) by (simp add: irq_countdown_def)
  have b: "irq_fire ?x = ?y"
    by (simp add: irq_fire_def)
  have "sim_irq_acked ?y AND 1 = 0"
    using assms(5) by simp
  then have c: "irq_unmask 5000000 ?y = ?y"
    by (rule irq_unmask_noack)
  have "\<not> sim_next_digit ?y < 2"
    using w_digit [OF assms(4)] by simp
  then have d: "digits_done 3 ?y = ?y"
    by (rule digits_done_id)
  have e: "stage5 (stage4 (stage3 ?y)) = ?y"
    using assms(1) by (simp add: stage3_id stage4_id stage5_id)
  show ?thesis
    by (simp only: simulate_stage2 [OF assms(1,2)] a b c d e)
qed

lemma fire5:
  assumes "sim_stage e = 5" "sim_calltype e \<noteq> SIM_CALLTYPE_PPCALL" "sim_irq_delay e = 2"
    "2 \<le> sim_next_digit e" "sim_irq_acked e AND 1 = 0"
  shows "snd (simulate e) =
    e\<lparr>debug := 0, sim_irq_delay := 0, sim_pinpad_input := ucast (sim_next_digit e),
      sim_return_badge := 1\<rparr>"
proof -
  let ?x = "e\<lparr>debug := 0, sim_irq_delay := 1\<rparr>"
  let ?y = "e\<lparr>debug := 0, sim_irq_delay := 0, sim_pinpad_input := ucast (sim_next_digit e),
              sim_return_badge := 1\<rparr>"
  have a: "irq_countdown (e\<lparr>debug := 0\<rparr>) = ?x"
    using assms(3) by (simp add: irq_countdown_def)
  have a': "ppcall_at_100 ?x = ?x"
    by (simp add: ppcall_at_100_def)
  have b: "irq_fire ?x = ?y"
    by (simp add: irq_fire_def)
  have "sim_irq_acked ?y AND 1 = 0"
    using assms(5) by simp
  then have c: "irq_unmask 7500000 ?y = ?y"
    by (rule irq_unmask_noack)
  have "\<not> sim_next_digit ?y < 2"
    using w_digit [OF assms(4)] by simp
  then have d: "digits_done 6 ?y = ?y"
    by (rule digits_done_id)
  show ?thesis
    by (simp only: simulate_stage5 [OF assms(1,2)] a a' b c d)
qed

lemma pin_fire:
  assumes "pin_stage e" "sim_calltype e \<noteq> SIM_CALLTYPE_PPCALL" "sim_irq_delay e = 2"
    "2 \<le> sim_next_digit e" "sim_irq_acked e AND 1 = 0"
  shows "sim_stage (snd (simulate e)) = sim_stage e
    \<and> sim_irq_delay (snd (simulate e)) = 0
    \<and> sim_next_digit (snd (simulate e)) = sim_next_digit e
    \<and> sim_pinpad_input (snd (simulate e)) = ucast (sim_next_digit e)
    \<and> sim_return_badge (snd (simulate e)) = 1"
proof (cases "sim_stage e = 2")
  case True
  show ?thesis
    by (simp add: fire2 [OF True assms(2,3,4,5)])
next
  case False
  then have five: "sim_stage e = 5" using assms(1) by (simp add: pin_stage_def)
  show ?thesis
    by (simp add: fire5 [OF five assms(2,3,4,5)])
qed

lemma masked2:
  assumes "sim_stage e = 2" "sim_calltype e \<noteq> SIM_CALLTYPE_PPCALL" "sim_irq_delay e = 0"
    "2 \<le> sim_next_digit e" "sim_irq_acked e AND 1 = 0"
  shows "snd (simulate e) = e"
proof -
  have a: "irq_countdown e = e"
    using assms(3) by (simp add: irq_countdown_def)
  have b: "irq_fire e = e"
    using assms(3) by (simp add: irq_fire_def)
  have c: "irq_unmask 5000000 e = e"
    using assms(5) by (rule irq_unmask_noack)
  have "\<not> sim_next_digit e < 2"
    using w_digit [OF assms(4)] by simp
  then have d: "digits_done 3 e = e"
    by (rule digits_done_id)
  have e: "stage5 (stage4 (stage3 e)) = e"
    using assms(1) by (simp add: stage3_id stage4_id stage5_id)
  show ?thesis
    by (simp only: simulate_stage2 [OF assms(1,2)] a b c d e)
qed

lemma masked5:
  assumes "sim_stage e = 5" "sim_calltype e \<noteq> SIM_CALLTYPE_PPCALL" "sim_irq_delay e = 0"
    "2 \<le> sim_next_digit e" "sim_irq_acked e AND 1 = 0"
  shows "snd (simulate e) = e\<lparr>debug := 0\<rparr>"
proof -
  let ?x = "e\<lparr>debug := 0\<rparr>"
  have a: "irq_countdown ?x = ?x"
    using assms(3) by (simp add: irq_countdown_def)
  have a': "ppcall_at_100 ?x = ?x"
    using assms(3) by (simp add: ppcall_at_100_def)
  have b: "irq_fire ?x = ?x"
    using assms(3) by (simp add: irq_fire_def)
  have "sim_irq_acked ?x AND 1 = 0"
    using assms(5) by simp
  then have c: "irq_unmask 7500000 ?x = ?x"
    by (rule irq_unmask_noack)
  have "\<not> sim_next_digit ?x < 2"
    using w_digit [OF assms(4)] by simp
  then have d: "digits_done 6 ?x = ?x"
    by (rule digits_done_id)
  show ?thesis
    by (simp only: simulate_stage5 [OF assms(1,2)] a a' b c d)
qed

lemma pin_masked:
  assumes "pin_stage e" "sim_calltype e \<noteq> SIM_CALLTYPE_PPCALL" "sim_irq_delay e = 0"
    "2 \<le> sim_next_digit e" "sim_irq_acked e AND 1 = 0" "sim_return_badge e = 0"
  shows "sim_stage (snd (simulate e)) = sim_stage e
    \<and> sim_irq_delay (snd (simulate e)) = 0
    \<and> sim_next_digit (snd (simulate e)) = sim_next_digit e
    \<and> sim_pinpad_input (snd (simulate e)) = sim_pinpad_input e
    \<and> sim_return_badge (snd (simulate e)) = 0"
proof (cases "sim_stage e = 2")
  case True
  show ?thesis
    using assms(3,6) by (simp add: masked2 [OF True assms(2,3,4,5)])
next
  case False
  then have five: "sim_stage e = 5" using assms(1) by (simp add: pin_stage_def)
  show ?thesis
    using assms(3,6) by (simp add: masked5 [OF five assms(2,3,4,5)])
qed

text \<open>The blocks after stage 2, run on a state that the stage 2 block has produced.\<close>

lemma after_stage2:
  assumes "sim_stage x = 2 \<or> sim_stage x = 3"
  shows "sim_next_digit (stage5 (stage4 (stage3 x))) = sim_next_digit x
    \<and> sim_irq_delay (stage5 (stage4 (stage3 x))) = sim_irq_delay x
    \<and> sim_pinpad_input (stage5 (stage4 (stage3 x))) = sim_pinpad_input x
    \<and> (sim_stage (stage5 (stage4 (stage3 x))) = 2) = (sim_stage x = 2)"
proof (cases "sim_stage x = 2")
  case True
  then show ?thesis by (simp add: stage3_id stage4_id stage5_id)
next
  case False
  then have three: "sim_stage x = 3" using assms by simp
  show ?thesis
  proof (cases "sim_notified x AND 2 = 0")
    case True
    then have "stage3 x = x" using three by (simp add: stage3_def)
    then show ?thesis using three by (simp add: stage4_id stage5_id)
  next
    case False
    let ?y = "x\<lparr>sim_return_badge := 9223372036854775808 OR 2, sim_stage := 4,
                sim_reply_label := 0\<rparr>"
    have a: "stage3 x = ?y" using three False by (simp add: stage3_def)
    have b: "stage4 ?y = ?y\<lparr>debug := 1\<rparr>" by (simp add: stage4_def Let_def)
    have c: "stage5 (?y\<lparr>debug := 1\<rparr>) = ?y\<lparr>debug := 1\<rparr>" by (simp add: stage5_id)
    show ?thesis using three by (simp only: a b c) simp
  qed
qed

lemma core_stage:
  assumes "sim_stage x = 2"
  shows "(sim_stage (digits_done 3 (irq_unmask r (irq_fire (irq_countdown x)))) = 2
          \<or> sim_stage (digits_done 3 (irq_unmask r (irq_fire (irq_countdown x)))) = 3)
    \<and> (sim_stage (digits_done 3 (irq_unmask r (irq_fire (irq_countdown x)))) = 2)
       = (\<not> sim_next_digit (digits_done 3 (irq_unmask r (irq_fire (irq_countdown x)))) < 2)"
proof -
  have "sim_stage (irq_unmask r (irq_fire (irq_countdown x))) = 2"
    using assms by (simp add: irq_unmask_def irq_fire_def irq_countdown_def)
  then show ?thesis
    by (simp add: digits_done_def)
qed

lemma leave2:
  assumes "sim_stage e = 2" "sim_calltype e \<noteq> SIM_CALLTYPE_PPCALL"
  shows "(sim_stage (snd (simulate e)) \<noteq> 2) = (sim_next_digit (snd (simulate e)) < 2)"
proof -
  let ?y = "digits_done 3 (irq_unmask 5000000 (irq_fire (irq_countdown e)))"
  have c: "sim_stage ?y = 2 \<or> sim_stage ?y = 3"
    by (rule core_stage [OF assms(1), of 5000000, THEN conjunct1])
  have c': "(sim_stage ?y = 2) = (\<not> sim_next_digit ?y < 2)"
    by (rule core_stage [OF assms(1), of 5000000, THEN conjunct2])
  have a: "sim_next_digit (stage5 (stage4 (stage3 ?y))) = sim_next_digit ?y"
    by (rule after_stage2 [OF c, THEN conjunct1])
  have a': "(sim_stage (stage5 (stage4 (stage3 ?y))) = 2) = (sim_stage ?y = 2)"
    by (rule after_stage2 [OF c, THEN conjunct2, THEN conjunct2, THEN conjunct2])
  show ?thesis
    by (simp only: simulate_stage2 [OF assms] a a' c') simp
qed

lemma leave5:
  assumes "sim_stage e = 5" "sim_calltype e \<noteq> SIM_CALLTYPE_PPCALL"
  shows "(sim_stage (snd (simulate e)) \<noteq> 5) = (sim_next_digit (snd (simulate e)) < 2)"
proof -
  have "sim_stage (irq_unmask 7500000 (irq_fire (ppcall_at_100 (irq_countdown (e\<lparr>debug := 0\<rparr>))))) = 5"
    using assms(1) by (simp add: irq_unmask_def irq_fire_def irq_countdown_def ppcall_at_100_def)
  then show ?thesis
    by (simp add: simulate_stage5 [OF assms] digits_done_def)
qed

lemma pin_leave:
  assumes "pin_stage e" "sim_calltype e \<noteq> SIM_CALLTYPE_PPCALL"
  shows "(sim_stage (snd (simulate e)) \<noteq> sim_stage e) = (sim_next_digit (snd (simulate e)) < 2)"
proof (cases "sim_stage e = 2")
  case True
  show ?thesis using leave2 [OF True assms(2)] True by simp
next
  case False
  then have five: "sim_stage e = 5" using assms(1) by (simp add: pin_stage_def)
  show ?thesis using leave5 [OF five assms(2)] five by simp
qed

lemma acked2:
  assumes "sim_stage e = 2" "sim_calltype e \<noteq> SIM_CALLTYPE_PPCALL" "sim_irq_delay e = 0"
    "sim_irq_acked e AND 1 \<noteq> 0"
  shows "sim_next_digit (snd (simulate e)) = sim_next_digit e - 1
    \<and> sim_irq_delay (snd (simulate e)) = 5000000
    \<and> sim_pinpad_input (snd (simulate e)) = sim_pinpad_input e"
proof -
  let ?z = "e\<lparr>sim_next_digit := sim_next_digit e - 1, sim_irq_delay := 5000000\<rparr>"
  have a: "irq_countdown e = e"
    using assms(3) by (simp add: irq_countdown_def)
  have b: "irq_fire e = e"
    using assms(3) by (simp add: irq_fire_def)
  have c: "irq_unmask 5000000 e = ?z"
    using assms(3,4) by (simp add: irq_unmask_def)
  have d: "sim_stage (digits_done 3 ?z) = 2 \<or> sim_stage (digits_done 3 ?z) = 3"
    using assms(1) by (simp add: digits_done_def)
  have e: "sim_next_digit (digits_done 3 ?z) = sim_next_digit e - 1"
    "sim_irq_delay (digits_done 3 ?z) = 5000000"
    "sim_pinpad_input (digits_done 3 ?z) = sim_pinpad_input e"
    by (simp_all add: digits_done_def)
  show ?thesis
    using after_stage2 [OF d] by (simp only: simulate_stage2 [OF assms(1,2)] a b c e)
qed

lemma acked5:
  assumes "sim_stage e = 5" "sim_calltype e \<noteq> SIM_CALLTYPE_PPCALL" "sim_irq_delay e = 0"
    "sim_irq_acked e AND 1 \<noteq> 0"
  shows "sim_next_digit (snd (simulate e)) = sim_next_digit e - 1
    \<and> sim_irq_delay (snd (simulate e)) = 7500000
    \<and> sim_pinpad_input (snd (simulate e)) = sim_pinpad_input e"
proof -
  let ?x = "e\<lparr>debug := 0\<rparr>"
  let ?z = "e\<lparr>debug := 0, sim_next_digit := sim_next_digit e - 1, sim_irq_delay := 7500000\<rparr>"
  have a: "irq_countdown ?x = ?x"
    using assms(3) by (simp add: irq_countdown_def)
  have a': "ppcall_at_100 ?x = ?x"
    using assms(3) by (simp add: ppcall_at_100_def)
  have b: "irq_fire ?x = ?x"
    using assms(3) by (simp add: irq_fire_def)
  have c: "irq_unmask 7500000 ?x = ?z"
    using assms(3,4) by (simp add: irq_unmask_def)
  show ?thesis
    by (simp only: simulate_stage5 [OF assms(1,2)] a a' b c) (simp add: digits_done_def)
qed

lemma pin_acked:
  assumes "pin_stage e" "sim_calltype e \<noteq> SIM_CALLTYPE_PPCALL" "sim_irq_delay e = 0"
    "sim_irq_acked e AND 1 \<noteq> 0"
  shows "sim_next_digit (snd (simulate e)) = sim_next_digit e - 1
    \<and> sim_irq_delay (snd (simulate e)) = (if sim_stage e = 2 then 5000000 else 7500000)
    \<and> sim_pinpad_input (snd (simulate e)) = sim_pinpad_input e"
proof (cases "sim_stage e = 2")
  case True
  show ?thesis using acked2 [OF True assms(2,3,4)] True by simp
next
  case False
  then have five: "sim_stage e = 5" using assms(1) by (simp add: pin_stage_def)
  show ?thesis using acked5 [OF five assms(2,3,4)] five by simp
qed

lemma or_1_and_1: "(x OR 1) AND (1::64 word) = 1"
  by (rule bit_word_eqI) (auto simp add: bit_simps)

lemma irq_ack_0: "sel4cp_irq_ack 0 s = Some (s\<lparr>sim_irq_acked := sim_irq_acked s OR 1\<rparr>)"
  by (simp add: sel4cp_irq_ack_def shl_int_1_def SEL4CP_MAX_CHANNELS_def int_to_uint64_def)

lemma run_ack_wait:
  "is_wait c \<Longrightarrow>
     snd (run_calls [IrqAck 0, c] s) = wait_state c (s\<lparr>sim_irq_acked := sim_irq_acked s OR 1\<rparr>)
     \<and> badges (run_calls [IrqAck 0, c] s)
         = [Some (wait_badge c (s\<lparr>sim_irq_acked := sim_irq_acked s OR 1\<rparr>))]"
  by (simp add: irq_ack_0 wait_step badges_def del: api_step.simps(3-))

lemma wait_fire:
  assumes "pin_stage s" "sim_irq_delay s = 2" "2 \<le> sim_next_digit s"
    "sim_irq_acked s AND 1 = 0"
  shows "wait_badge c s = 1"
    and "sim_stage (wait_state c s) = sim_stage s"
    and "sim_irq_delay (wait_state c s) = 0"
    and "sim_next_digit (wait_state c s) = sim_next_digit s"
    and "sim_pinpad_input (wait_state c s) = ucast (sim_next_digit s)"
    and "sim_irq_acked (wait_state c s) = 0"
  using pin_fire [of "wait_entry c s"] assms
  by (simp_all add: wait_badge_def wait_state_def clear_flags_fields wait_entry_fields
      pin_stage_entry wait_entry_calltype)

lemma wait_masked:
  assumes "pin_stage s" "sim_irq_delay s = 0" "2 \<le> sim_next_digit s"
    "sim_irq_acked s AND 1 = 0"
  shows "wait_badge c s = 0"
    and "sim_stage (wait_state c s) = sim_stage s"
    and "sim_irq_delay (wait_state c s) = 0"
    and "sim_next_digit (wait_state c s) = sim_next_digit s"
    and "sim_pinpad_input (wait_state c s) = sim_pinpad_input s"
    and "sim_irq_acked (wait_state c s) = 0"
  using pin_masked [of "wait_entry c s"] assms
  by (simp_all add: wait_badge_def wait_state_def clear_flags_fields wait_entry_fields
      pin_stage_entry wait_entry_calltype)

lemma wait_acked:
  assumes "pin_stage s" "sim_irq_delay s = 0" "sim_irq_acked s AND 1 \<noteq> 0"
  shows "sim_next_digit (wait_state c s) = sim_next_digit s - 1"
    and "sim_irq_delay (wait_state c s) = (if sim_stage s = 2 then 5000000 else 7500000)"
    and "sim_pinpad_input (wait_state c s) = sim_pinpad_input s"
  using pin_acked [of "wait_entry c s"] assms
  by (simp_all add: wait_state_def clear_flags_fields wait_entry_fields
      pin_stage_entry wait_entry_calltype)

lemma wait_leave:
  assumes "pin_stage s"
  shows "(sim_stage (wait_state c s) \<noteq> sim_stage s) = (sim_next_digit (wait_state c s) < 2)"
  using pin_leave [of "wait_entry c s"] assms
  by (simp add: wait_state_def clear_flags_fields wait_entry_fields
      pin_stage_entry wait_entry_calltype)

lemma pin_stage_cong: "sim_stage s' = sim_stage s \<Longrightarrow> pin_stage s' = pin_stage s"
  by (simp add: pin_stage_def)

section \<open>Runs of receive calls in a PIN-entry stage\<close>

lemma quiet_run:
  assumes "list_all is_wait cs" "pin_stage s" "length cs + 2 \<le> unat (sim_irq_delay s)"
    "2 \<le> sim_next_digit s"
  shows "irq_badge \<notin> set (badges (run_calls cs s))
    \<and> sim_stage (snd (run_calls cs s)) = sim_stage s
    \<and> sim_irq_delay (snd (run_calls cs s)) = sim_irq_delay s - of_nat (length cs)
    \<and> sim_next_digit (snd (run_calls cs s)) = sim_next_digit s
    \<and> sim_pinpad_input (snd (run_calls cs s)) = sim_pinpad_input s"
  using assms
proof (induction cs arbitrary: s)
  case Nil
  show ?case by (simp add: badges_def)
next
  case (Cons c cs)
  let ?s = "wait_state c s"
  have w: "is_wait c" and ws: "list_all is_wait cs"
    using Cons.prems(1) by simp_all
  have three: "3 \<le> unat (sim_irq_delay s)"
    using Cons.prems(3) by simp
  have big: "2 < sim_irq_delay s"
    using three by (rule w_gt2)
  note q = wait_quiet [OF Cons.prems(2) big Cons.prems(4), of c]
  have st: "pin_stage ?s"
    using Cons.prems(2) by (simp only: pin_stage_cong [OF q(2)])
  have "unat (sim_irq_delay ?s) = unat (sim_irq_delay s) - 1"
    by (simp only: q(3) w_unat_pred [OF big])
  then have len: "length cs + 2 \<le> unat (sim_irq_delay ?s)"
    using Cons.prems(3) by simp
  have dig: "2 \<le> sim_next_digit ?s"
    using Cons.prems(4) by (simp only: q(4))
  note ih = Cons.IH [OF ws st len dig]
  have b: "irq_badge \<notin> set (badges (run_calls (c # cs) s))"
    using q(1) ih by (simp only: badges_wait_Cons [OF w]) (simp add: irq_badge_def)
  have g: "sim_stage (snd (run_calls (c # cs) s)) = sim_stage s"
    using ih by (simp only: final_wait_Cons [OF w] q(2))
  have "sim_irq_delay (snd (run_calls (c # cs) s)) = sim_irq_delay s - 1 - of_nat (length cs)"
    using ih by (simp only: final_wait_Cons [OF w] q(3))
  also have "\<dots> = sim_irq_delay s - of_nat (length (c # cs))"
    by simp
  finally have d: "sim_irq_delay (snd (run_calls (c # cs) s))
      = sim_irq_delay s - of_nat (length (c # cs))" .
  have n: "sim_next_digit (snd (run_calls (c # cs) s)) = sim_next_digit s"
    using ih by (simp only: final_wait_Cons [OF w] q(4))
  have p: "sim_pinpad_input (snd (run_calls (c # cs) s)) = sim_pinpad_input s"
    using ih by (simp only: final_wait_Cons [OF w] q(5))
  show ?case
    using b g d n p by blast
qed

lemma fire_run:
  assumes "list_all is_wait cs" "pin_stage s" "length cs + 1 = unat (sim_irq_delay s)"
    "cs \<noteq> []" "2 \<le> sim_next_digit s" "sim_irq_acked s AND 1 = 0"
  shows "irq_badge \<notin> set (butlast (badges (run_calls cs s)))
    \<and> last (badges (run_calls cs s)) = irq_badge
    \<and> sim_stage (snd (run_calls cs s)) = sim_stage s
    \<and> sim_irq_delay (snd (run_calls cs s)) = 0
    \<and> sim_next_digit (snd (run_calls cs s)) = sim_next_digit s
    \<and> sim_pinpad_input (snd (run_calls cs s)) = ucast (sim_next_digit s)"
  using assms
proof (induction cs arbitrary: s)
  case Nil
  then show ?case by simp
next
  case (Cons c cs)
  let ?s = "wait_state c s"
  have w: "is_wait c" and ws: "list_all is_wait cs"
    using Cons.prems(1) by simp_all
  show ?case
  proof (cases "cs = []")
    case True
    have "unat (sim_irq_delay s) = 2"
      using Cons.prems(3) True by simp
    then have two: "sim_irq_delay s = 2"
      by (rule w_eq2)
    note f = wait_fire [OF Cons.prems(2) two Cons.prems(5,6), of c]
    have e: "badges (run_calls [] ?s) = []" "snd (run_calls [] ?s) = ?s"
      by (simp_all add: badges_def)
    have b: "badges (run_calls (c # cs) s) = [irq_badge]"
      unfolding True by (simp only: badges_wait_Cons [OF w] e f(1) irq_badge_def)
    have r: "snd (run_calls (c # cs) s) = ?s"
      unfolding True by (simp only: final_wait_Cons [OF w] e)
    show ?thesis
      by (simp only: b r f) simp
  next
    case False
    have "3 \<le> unat (sim_irq_delay s)"
      using Cons.prems(3) False by (cases cs) simp_all
    then have big: "2 < sim_irq_delay s"
      by (rule w_gt2)
    note q = wait_quiet [OF Cons.prems(2) big Cons.prems(5), of c]
    have st: "pin_stage ?s"
      using Cons.prems(2) by (simp only: pin_stage_cong [OF q(2)])
    have "unat (sim_irq_delay ?s) = unat (sim_irq_delay s) - 1"
      by (simp only: q(3) w_unat_pred [OF big])
    then have len: "length cs + 1 = unat (sim_irq_delay ?s)"
      using Cons.prems(3) by simp
    have dig: "2 \<le> sim_next_digit ?s"
      using Cons.prems(5) by (simp only: q(4))
    have ack: "sim_irq_acked ?s AND 1 = 0"
      by (simp add: q(6))
    note ih = Cons.IH [OF ws st len False dig ack]
    have ne: "badges (run_calls cs ?s) \<noteq> []"
      using badges_length [OF ws, of ?s] False by auto
    have b: "irq_badge \<notin> set (butlast (badges (run_calls (c # cs) s)))"
      using q(1) ih ne by (simp only: badges_wait_Cons [OF w]) (simp add: irq_badge_def)
    have l: "last (badges (run_calls (c # cs) s)) = irq_badge"
      using ih ne by (simp only: badges_wait_Cons [OF w]) simp
    have r: "sim_stage (snd (run_calls (c # cs) s)) = sim_stage s
      \<and> sim_irq_delay (snd (run_calls (c # cs) s)) = 0
      \<and> sim_next_digit (snd (run_calls (c # cs) s)) = sim_next_digit s
      \<and> sim_pinpad_input (snd (run_calls (c # cs) s)) = ucast (sim_next_digit s)"
      using ih by (simp only: final_wait_Cons [OF w] q(2) q(4))
    show ?thesis
      using b l r by blast
  qed
qed

lemma masked_run:
  assumes "list_all is_wait cs" "pin_stage s" "sim_irq_delay s = 0"
    "2 \<le> sim_next_digit s" "sim_irq_acked s AND 1 = 0"
  shows "badges (run_calls cs s) = replicate (length cs) (Some 0)
    \<and> sim_stage (snd (run_calls cs s)) = sim_stage s
    \<and> sim_irq_delay (snd (run_calls cs s)) = 0
    \<and> sim_next_digit (snd (run_calls cs s)) = sim_next_digit s
    \<and> sim_pinpad_input (snd (run_calls cs s)) = sim_pinpad_input s"
  using assms
proof (induction cs arbitrary: s)
  case Nil
  then show ?case by (simp add: badges_def)
next
  case (Cons c cs)
  let ?s = "wait_state c s"
  have w: "is_wait c" and ws: "list_all is_wait cs"
    using Cons.prems(1) by simp_all
  note m = wait_masked [OF Cons.prems(2,3,4,5), of c]
  have st: "pin_stage ?s"
    using Cons.prems(2) by (simp only: pin_stage_cong [OF m(2)])
  have dig: "2 \<le> sim_next_digit ?s"
    using Cons.prems(4) by (simp only: m(4))
  have ack: "sim_irq_acked ?s AND 1 = 0"
    by (simp add: m(6))
  note ih = Cons.IH [OF ws st m(3) dig ack]
  have b: "badges (run_calls (c # cs) s) = replicate (length (c # cs)) (Some 0)"
    using ih by (simp only: badges_wait_Cons [OF w] m(1)) simp
  have r: "sim_stage (snd (run_calls (c # cs) s)) = sim_stage s
    \<and> sim_irq_delay (snd (run_calls (c # cs) s)) = 0
    \<and> sim_next_digit (snd (run_calls (c # cs) s)) = sim_next_digit s
    \<and> sim_pinpad_input (snd (run_calls (c # cs) s)) = sim_pinpad_input s"
    using ih by (simp only: final_wait_Cons [OF w] m(2) m(4) m(5))
  show ?case
    using b r by blast
qed

lemma w_gt1_unat: "1 < (d::64 word) \<Longrightarrow> 2 \<le> unat d"
  by unat_arith

text \<open>
  C1 (amended): in a PIN-entry stage (2 or 5) with the timer at \<open>D > 1\<close>, the
  digit counter at 2 or more and no acknowledgement of channel 0 pending, a run of
  receive calls (\<^verbatim>\<open>seL4_Recv\<close> or \<^verbatim>\<open>seL4_ReplyRecv\<close>) of length at most \<open>D - 2\<close>
  delivers no interrupt badge and leaves the pinpad buffer and the stage alone, with
  the timer decremented once per call; a run of exactly \<open>D - 1\<close> calls delivers the
  interrupt badge 1 with its last call and with no earlier one, and then the buffer
  holds the low byte of the digit counter and the timer is 0. While the timer is 0
  and no acknowledgement of channel 0 is pending, every receive call delivers badge 0
  and changes neither buffer, timer, digit counter nor stage. A receive call that
  follows \<^verbatim>\<open>sel4cp_irq_ack(0)\<close> with the timer at 0 decrements the digit counter and
  reloads the timer (5000000 in stage 2, 7500000 in stage 5). A receive call leaves
  the PIN-entry stage exactly when the digit counter is below 2 after it.
\<close>

theorem countdown_determinism:
  "(pin_stage s \<and> 1 < sim_irq_delay s \<and> 2 \<le> sim_next_digit s
      \<and> sim_irq_acked s AND 1 = 0 \<and> list_all is_wait cs \<longrightarrow>
      (length cs + 2 \<le> unat (sim_irq_delay s) \<longrightarrow>
         irq_badge \<notin> set (badges (run_calls cs s))
         \<and> sim_pinpad_input (snd (run_calls cs s)) = sim_pinpad_input s
         \<and> sim_irq_delay (snd (run_calls cs s)) = sim_irq_delay s - of_nat (length cs)
         \<and> sim_stage (snd (run_calls cs s)) = sim_stage s)
      \<and> (length cs + 1 = unat (sim_irq_delay s) \<longrightarrow>
         irq_badge \<notin> set (butlast (badges (run_calls cs s)))
         \<and> last (badges (run_calls cs s)) = irq_badge
         \<and> sim_pinpad_input (snd (run_calls cs s)) = ucast (sim_next_digit s)
         \<and> sim_irq_delay (snd (run_calls cs s)) = 0
         \<and> sim_stage (snd (run_calls cs s)) = sim_stage s))
   \<and> (pin_stage t \<and> sim_irq_delay t = 0 \<and> 2 \<le> sim_next_digit t
        \<and> sim_irq_acked t AND 1 = 0 \<and> list_all is_wait ds \<longrightarrow>
        badges (run_calls ds t) = replicate (length ds) (Some 0)
        \<and> sim_pinpad_input (snd (run_calls ds t)) = sim_pinpad_input t
        \<and> sim_irq_delay (snd (run_calls ds t)) = 0
        \<and> sim_next_digit (snd (run_calls ds t)) = sim_next_digit t
        \<and> sim_stage (snd (run_calls ds t)) = sim_stage t)
   \<and> (pin_stage t \<and> sim_irq_delay t = 0 \<and> is_wait c \<longrightarrow>
        sim_next_digit (snd (run_calls [IrqAck 0, c] t)) = sim_next_digit t - 1
        \<and> sim_irq_delay (snd (run_calls [IrqAck 0, c] t))
            = (if sim_stage t = 2 then 5000000 else 7500000))
   \<and> (pin_stage u \<and> is_wait c \<longrightarrow>
        (sim_stage (snd (run_calls [c] u)) \<noteq> sim_stage u)
          = (sim_next_digit (snd (run_calls [c] u)) < 2))"
proof (intro conjI impI)
  assume h: "pin_stage s \<and> 1 < sim_irq_delay s \<and> 2 \<le> sim_next_digit s
      \<and> sim_irq_acked s AND 1 = 0 \<and> list_all is_wait cs"
    and len: "length cs + 2 \<le> unat (sim_irq_delay s)"
  have q: "irq_badge \<notin> set (badges (run_calls cs s))
    \<and> sim_stage (snd (run_calls cs s)) = sim_stage s
    \<and> sim_irq_delay (snd (run_calls cs s)) = sim_irq_delay s - of_nat (length cs)
    \<and> sim_next_digit (snd (run_calls cs s)) = sim_next_digit s
    \<and> sim_pinpad_input (snd (run_calls cs s)) = sim_pinpad_input s"
    using h len by (intro quiet_run) simp_all
  show "irq_badge \<notin> set (badges (run_calls cs s))" using q by blast
  show "sim_pinpad_input (snd (run_calls cs s)) = sim_pinpad_input s" using q by blast
  show "sim_irq_delay (snd (run_calls cs s)) = sim_irq_delay s - of_nat (length cs)"
    using q by blast
  show "sim_stage (snd (run_calls cs s)) = sim_stage s" using q by blast
next
  assume h: "pin_stage s \<and> 1 < sim_irq_delay s \<and> 2 \<le> sim_next_digit s
      \<and> sim_irq_acked s AND 1 = 0 \<and> list_all is_wait cs"
    and len: "length cs + 1 = unat (sim_irq_delay s)"
  have "2 \<le> unat (sim_irq_delay s)"
    using h by (simp add: w_gt1_unat)
  then have ne: "cs \<noteq> []"
    using len by auto
  have f: "irq_badge \<notin> set (butlast (badges (run_calls cs s)))
    \<and> last (badges (run_calls cs s)) = irq_badge
    \<and> sim_stage (snd (run_calls cs s)) = sim_stage s
    \<and> sim_irq_delay (snd (run_calls cs s)) = 0
    \<and> sim_next_digit (snd (run_calls cs s)) = sim_next_digit s
    \<and> sim_pinpad_input (snd (run_calls cs s)) = ucast (sim_next_digit s)"
    using h len ne by (intro fire_run) simp_all
  show "irq_badge \<notin> set (butlast (badges (run_calls cs s)))" using f by blast
  show "last (badges (run_calls cs s)) = irq_badge" using f by blast
  show "sim_pinpad_input (snd (run_calls cs s)) = ucast (sim_next_digit s)" using f by blast
  show "sim_irq_delay (snd (run_calls cs s)) = 0" using f by blast
  show "sim_stage (snd (run_calls cs s)) = sim_stage s" using f by blast
next
  assume h: "pin_stage t \<and> sim_irq_delay t = 0 \<and> 2 \<le> sim_next_digit t
        \<and> sim_irq_acked t AND 1 = 0 \<and> list_all is_wait ds"
  have m: "badges (run_calls ds t) = replicate (length ds) (Some 0)
    \<and> sim_stage (snd (run_calls ds t)) = sim_stage t
    \<and> sim_irq_delay (snd (run_calls ds t)) = 0
    \<and> sim_next_digit (snd (run_calls ds t)) = sim_next_digit t
    \<and> sim_pinpad_input (snd (run_calls ds t)) = sim_pinpad_input t"
    using h by (intro masked_run) simp_all
  show "badges (run_calls ds t) = replicate (length ds) (Some 0)" using m by blast
  show "sim_pinpad_input (snd (run_calls ds t)) = sim_pinpad_input t" using m by blast
  show "sim_irq_delay (snd (run_calls ds t)) = 0" using m by blast
  show "sim_next_digit (snd (run_calls ds t)) = sim_next_digit t" using m by blast
  show "sim_stage (snd (run_calls ds t)) = sim_stage t" using m by blast
next
  assume h: "pin_stage t \<and> sim_irq_delay t = 0 \<and> is_wait c"
  let ?t = "t\<lparr>sim_irq_acked := sim_irq_acked t OR 1\<rparr>"
  have r: "snd (run_calls [IrqAck 0, c] t) = wait_state c ?t"
    using h run_ack_wait [of c t] by blast
  have p: "pin_stage ?t" using h by (simp add: pin_stage_def)
  have d: "sim_irq_delay ?t = 0" using h by simp
  have a: "sim_irq_acked ?t AND 1 \<noteq> 0" by (simp add: or_1_and_1)
  note k = wait_acked [OF p d a, of c]
  show "sim_next_digit (snd (run_calls [IrqAck 0, c] t)) = sim_next_digit t - 1"
    using k(1) by (simp only: r) simp
  show "sim_irq_delay (snd (run_calls [IrqAck 0, c] t))
            = (if sim_stage t = 2 then 5000000 else 7500000)"
    using k(2) by (simp only: r) simp
next
  assume h: "pin_stage u \<and> is_wait c"
  have r: "snd (run_calls [c] u) = wait_state c u"
    using h final_wait_Cons [of c "[]" u] by simp
  show "(sim_stage (snd (run_calls [c] u)) \<noteq> sim_stage u)
          = (sim_next_digit (snd (run_calls [c] u)) < 2)"
    using h wait_leave [of u c] by (simp only: r) 
qed

text \<open>
  The count of C1 as stated, \<open>D\<close> calls, fails: with the timer at 3 in stage 2 and no
  acknowledgement, the second receive call already delivers the interrupt badge and
  writes the digit 5 into the buffer, and the third call delivers badge 0.
\<close>

theorem countdown_counterexample:
  "pin_stage (pin_entry 3) \<and> sim_irq_delay (pin_entry 3) = 3
   \<and> sim_irq_acked (pin_entry 3) = 0
   \<and> badges (run_calls [Recv 0, Recv 0] (pin_entry 3)) = [Some 0, irq_badge]
   \<and> sim_pinpad_input (snd (run_calls [Recv 0, Recv 0] (pin_entry 3))) = 5
   \<and> irq_badge \<in> set (badges (run_calls [Recv 0, Recv 0] (pin_entry 3)))
   \<and> last (badges (run_calls [Recv 0, Recv 0, Recv 0] (pin_entry 3))) \<noteq> irq_badge"
  by code_simp

text \<open>The amended statement of C1 at the timer value 3 and in a masked stage 5.\<close>

theorem countdown_determinism_witness:
  "pin_stage (pin_entry 3) \<and> 1 < sim_irq_delay (pin_entry 3)
   \<and> 2 \<le> sim_next_digit (pin_entry 3) \<and> sim_irq_acked (pin_entry 3) AND 1 = 0
   \<and> list_all is_wait [Recv 0] \<and> length [Recv 0] + 2 \<le> unat (sim_irq_delay (pin_entry 3))
   \<and> irq_badge \<notin> set (badges (run_calls [Recv 0] (pin_entry 3)))
   \<and> list_all is_wait [Recv 0, ReplyRecv 0 \<lparr>words0 = 0\<rparr>]
   \<and> length [Recv 0, ReplyRecv 0 \<lparr>words0 = 0\<rparr>] + 1 = unat (sim_irq_delay (pin_entry 3))
   \<and> last (badges (run_calls [Recv 0, ReplyRecv 0 \<lparr>words0 = 0\<rparr>] (pin_entry 3))) = irq_badge
   \<and> sim_pinpad_input (snd (run_calls [Recv 0, ReplyRecv 0 \<lparr>words0 = 0\<rparr>] (pin_entry 3)))
       = ucast (sim_next_digit (pin_entry 3))
   \<and> pin_stage pin_masked_state \<and> sim_irq_delay pin_masked_state = 0
   \<and> 2 \<le> sim_next_digit pin_masked_state \<and> sim_irq_acked pin_masked_state AND 1 = 0
   \<and> badges (run_calls [Recv 0, Recv 0] pin_masked_state) = [Some 0, Some 0]
   \<and> is_wait (Recv 0)
   \<and> sim_next_digit (snd (run_calls [IrqAck 0, Recv 0] pin_masked_state))
       = sim_next_digit pin_masked_state - 1
   \<and> sim_irq_delay (snd (run_calls [IrqAck 0, Recv 0] pin_masked_state)) = 7500000
   \<and> (sim_stage (snd (run_calls [Recv 0] (pin_entry 3))) \<noteq> sim_stage (pin_entry 3))
       = (sim_next_digit (snd (run_calls [Recv 0] (pin_entry 3))) < 2)"
proof -
  have h1: "pin_stage (pin_entry 3) \<and> 1 < sim_irq_delay (pin_entry 3)
      \<and> 2 \<le> sim_next_digit (pin_entry 3) \<and> sim_irq_acked (pin_entry 3) AND 1 = 0"
    by (simp add: pin_entry_def pin_stage_def sim_init_def)
  have d3: "unat (sim_irq_delay (pin_entry 3)) = 3"
    by (simp add: pin_entry_def)
  have h2: "pin_stage pin_masked_state \<and> sim_irq_delay pin_masked_state = 0
      \<and> 2 \<le> sim_next_digit pin_masked_state \<and> sim_irq_acked pin_masked_state AND 1 = 0"
    by (simp add: pin_masked_state_def pin_stage_def sim_init_def)
  have st: "sim_stage pin_masked_state \<noteq> 2"
    by (simp add: pin_masked_state_def)
  have w1: "list_all is_wait [Recv 0]" "list_all is_wait [Recv 0, Recv 0]"
    "list_all is_wait [Recv 0, ReplyRecv 0 \<lparr>words0 = 0\<rparr>]" "is_wait (Recv 0)"
    by simp_all
  note a = countdown_determinism [of "pin_entry 3" "[Recv 0]" pin_masked_state
      "[Recv 0, Recv 0]" "Recv 0" "pin_entry 3"]
  note b = countdown_determinism [of "pin_entry 3" "[Recv 0, ReplyRecv 0 \<lparr>words0 = 0\<rparr>]"
      pin_masked_state "[Recv 0, Recv 0]" "Recv 0" "pin_entry 3"]
  show ?thesis
    using h1 d3 h2 st w1 a b by (simp add: numeral_2_eq_2)
qed

text \<open>
  The scripted start-up. \<^verbatim>\<open>seL4_Recv\<close> takes stage 0 to stage 1; a
  \<^verbatim>\<open>seL4_ReplyRecv\<close> with label 1 takes stage 1 to stage 2 and, in the same call,
  the timer from 1000000 to 999999; the last of 999998 further receive calls delivers
  the first interrupt. Inside the PIN-entry stage that is 999999 calls for a timer of
  1000000; counted from the start of the program it is the 1000000th call, because one
  call is spent in stage 0.
\<close>

lemma scripted_entry:
  "sim_stage (snd (run_calls [Recv 1, ReplyRecv 1 (sel4cp_msginfo_new 1 0)] sim_init)) = 2
   \<and> sim_irq_delay (snd (run_calls [Recv 1, ReplyRecv 1 (sel4cp_msginfo_new 1 0)] sim_init)) = 999999
   \<and> sim_next_digit (snd (run_calls [Recv 1, ReplyRecv 1 (sel4cp_msginfo_new 1 0)] sim_init)) = 5
   \<and> sim_irq_acked (snd (run_calls [Recv 1, ReplyRecv 1 (sel4cp_msginfo_new 1 0)] sim_init)) = 0
   \<and> badges (run_calls [Recv 1, ReplyRecv 1 (sel4cp_msginfo_new 1 0)] sim_init)
       = [Some 0x8000000000000001, Some 0]"
  by code_simp

lemma scripted_first_interrupt:
  "last (badges (run_calls (replicate 999998 (Recv 1))
      (snd (run_calls [Recv 1, ReplyRecv 1 (sel4cp_msginfo_new 1 0)] sim_init)))) = irq_badge
   \<and> irq_badge \<notin> set (butlast (badges (run_calls (replicate 999998 (Recv 1))
      (snd (run_calls [Recv 1, ReplyRecv 1 (sel4cp_msginfo_new 1 0)] sim_init)))))"
proof -
  let ?s = "snd (run_calls [Recv 1, ReplyRecv 1 (sel4cp_msginfo_new 1 0)] sim_init)"
  let ?cs = "replicate 999998 (Recv 1)"
  have w: "list_all is_wait ?cs"
    by (simp add: list_all_iff)
  have p: "pin_stage ?s"
    using scripted_entry by (simp only: pin_stage_def) simp
  have l: "length ?cs + 1 = unat (sim_irq_delay ?s)"
    using scripted_entry by (simp only: length_replicate) simp
  have ne: "?cs \<noteq> []"
    by simp
  have d: "2 \<le> sim_next_digit ?s"
    using scripted_entry by simp
  have a: "sim_irq_acked ?s AND 1 = 0"
    using scripted_entry by simp
  show ?thesis
    using fire_run [OF w p l ne d a] by blast
qed

section \<open>Stage monotonicity\<close>

lemma stage0_mono: "sim_stage s \<le> sim_stage (stage0 s)"
  by (simp add: stage0_def)

lemma stage1_mono: "sim_stage s \<le> sim_stage (stage1 s)"
  by (simp add: stage1_def)

lemma stage2_mono: "sim_stage s \<le> sim_stage (stage2 s)"
  by (simp add: stage_defs)

lemma stage3_mono: "sim_stage s \<le> sim_stage (stage3 s)"
  by (simp add: stage3_def)

lemma stage4_mono: "sim_stage s \<le> sim_stage (stage4 s)"
  by (simp add: stage4_def Let_def)

lemma stage5_mono: "sim_stage s \<le> sim_stage (stage5 s)"
  by (simp add: stage_defs)

lemma simulate_mono: "sim_stage s \<le> sim_stage (snd (simulate s))"
proof (cases "sim_calltype s = SIM_CALLTYPE_PPCALL")
  case True
  then show ?thesis by (simp add: simulate_ppcall)
next
  case False
  have "sim_stage s \<le> sim_stage (stage0 s)"
    by (rule stage0_mono)
  also have "\<dots> \<le> sim_stage (stage1 (stage0 s))"
    by (rule stage1_mono)
  also have "\<dots> \<le> sim_stage (stage2 (stage1 (stage0 s)))"
    by (rule stage2_mono)
  also have "\<dots> \<le> sim_stage (stage3 (stage2 (stage1 (stage0 s))))"
    by (rule stage3_mono)
  also have "\<dots> \<le> sim_stage (stage4 (stage3 (stage2 (stage1 (stage0 s)))))"
    by (rule stage4_mono)
  also have "\<dots> \<le> sim_stage (stage5 (stage4 (stage3 (stage2 (stage1 (stage0 s))))))"
    by (rule stage5_mono)
  finally show ?thesis using False by (simp add: simulate_wait)
qed

lemma notify_stage: "sel4cp_notify ch s = Some s' \<Longrightarrow> sim_stage s' = sim_stage s"
  by (auto simp: sel4cp_notify_def sel4cp_dbg_puts_def split: if_splits option.splits)

lemma irq_ack_stage: "sel4cp_irq_ack ch s = Some s' \<Longrightarrow> sim_stage s' = sim_stage s"
  by (auto simp: sel4cp_irq_ack_def sel4cp_dbg_puts_def split: if_splits option.splits)

lemma recv_mono: "sim_stage s \<le> sim_stage (snd (seL4_Recv src s))"
  using simulate_mono [of "wait_entry (Recv src) s"]
  by (simp add: recv_eq clear_flags_def)

lemma replyrecv_mono: "sim_stage s \<le> sim_stage (snd (seL4_ReplyRecv src t s))"
  using simulate_mono [of "wait_entry (ReplyRecv src t) s"]
  by (simp add: replyrecv_eq clear_flags_def)

lemma ppcall_stage: "sim_stage (snd (sel4cp_ppcall ch m s)) = sim_stage s"
  by (simp add: ppcall_eq sel4cp_dbg_puts_def)

lemma api_step_ppcall:
  "api_step (PPCall ch m) s =
     Some ([(fst (sel4cp_ppcall ch m s), None)], snd (sel4cp_ppcall ch m s))"
  by (simp add: case_prod_unfold Let_def)

lemma api_step_recv:
  "api_step (Recv src) s =
     Some ([(fst (fst (seL4_Recv src s)), Some (snd (fst (seL4_Recv src s))))],
           snd (seL4_Recv src s))"
  by (simp add: case_prod_unfold Let_def)

lemma api_step_replyrecv:
  "api_step (ReplyRecv src t) s =
     Some ([(fst (fst (seL4_ReplyRecv src t s)), Some (snd (fst (seL4_ReplyRecv src t s))))],
           snd (seL4_ReplyRecv src t s))"
  by (simp add: case_prod_unfold Let_def)

lemma run_calls_Some:
  "api_step c s = Some (rs, s') \<Longrightarrow>
     run_calls (c # cs) s = (rs @ fst (run_calls cs s'), snd (run_calls cs s'))"
  by (simp add: case_prod_unfold Let_def)

text \<open>One call: the stage does not go down and every reply is the empty message info.\<close>

lemma api_step_facts:
  assumes "api_step c s = Some (rs, s')"
  shows "sim_stage s \<le> sim_stage s'" and "\<forall>r\<in>set rs. fst r = \<lparr>words0 = 0\<rparr>"
proof -
  have "sim_stage s \<le> sim_stage s' \<and> (\<forall>r\<in>set rs. fst r = \<lparr>words0 = 0\<rparr>)"
  proof (cases c)
    case (Notify ch)
    with assms show ?thesis by (auto dest: notify_stage)
  next
    case (IrqAck ch)
    with assms show ?thesis by (auto dest: irq_ack_stage)
  next
    case (PPCall ch m)
    with assms show ?thesis
      using ppcall_stage [of ch m s]
      by (auto simp: api_step_ppcall ppcall_eq simp del: api_step.simps)
  next
    case (Recv src)
    with assms show ?thesis
      using recv_mono [of s src]
      by (auto simp: api_step_recv recv_eq simp del: api_step.simps)
  next
    case (ReplyRecv src t)
    with assms show ?thesis
      using replyrecv_mono [of s src t]
      by (auto simp: api_step_replyrecv replyrecv_eq simp del: api_step.simps)
  qed
  then show "sim_stage s \<le> sim_stage s'" and "\<forall>r\<in>set rs. fst r = \<lparr>words0 = 0\<rparr>"
    by blast+
qed

lemma run_calls_mono: "sim_stage s \<le> sim_stage (snd (run_calls cs s))"
proof (induction cs arbitrary: s)
  case Nil
  show ?case by simp
next
  case (Cons c cs)
  show ?case
  proof (cases "api_step c s")
    case None
    then show ?thesis by simp
  next
    case (Some p)
    obtain rs s' where p: "p = (rs, s')" by (cases p)
    have st: "api_step c s = Some (rs, s')" using Some p by simp
    have "sim_stage s \<le> sim_stage s'" using st by (rule api_step_facts(1))
    also have "\<dots> \<le> sim_stage (snd (run_calls cs s'))" by (rule Cons.IH)
    finally show ?thesis by (simp add: run_calls_Some [OF st] del: run_calls.simps)
  qed
qed

lemma run_calls_empty_replies: "\<forall>r\<in>set (fst (run_calls cs s)). fst r = \<lparr>words0 = 0\<rparr>"
proof (induction cs arbitrary: s)
  case Nil
  show ?case by simp
next
  case (Cons c cs)
  show ?case
  proof (cases "api_step c s")
    case None
    then show ?thesis by simp
  next
    case (Some p)
    obtain rs s' where p: "p = (rs, s')" by (cases p)
    have st: "api_step c s = Some (rs, s')" using Some p by simp
    show ?thesis
      using api_step_facts(2) [OF st] Cons.IH [of s']
      by (auto simp add: run_calls_Some [OF st] simp del: run_calls.simps)
  qed
qed

text \<open>
  C9: no invocation of \<^verbatim>\<open>simulate\<close> lowers the stage, in any state whatever
  (reachable or not), and so neither does \<^verbatim>\<open>seL4_Recv\<close>, \<^verbatim>\<open>seL4_ReplyRecv\<close>,
  \<^verbatim>\<open>sel4cp_ppcall\<close> or any sequence of API calls: the stage after is greater than or
  equal to the stage before.
\<close>

theorem stage_monotone:
  "sim_stage s \<le> sim_stage (snd (simulate s))
   \<and> sim_stage s \<le> sim_stage (snd (seL4_Recv src s))
   \<and> sim_stage s \<le> sim_stage (snd (seL4_ReplyRecv src reply_tag s))
   \<and> sim_stage s \<le> sim_stage (snd (sel4cp_ppcall ch msginfo s))
   \<and> sim_stage s \<le> sim_stage (snd (run_calls cs s))"
  by (simp add: simulate_mono recv_mono replyrecv_mono ppcall_stage run_calls_mono)

section \<open>The terminal stage\<close>

lemma simulate_terminal: "sim_stage e = 6 \<Longrightarrow> snd (simulate e) = e"
  by (simp add: simulate_def stage_defs)

lemma wait_terminal:
  assumes "sim_stage s = 6"
  shows "wait_badge c s = 0" and "sim_stage (wait_state c s) = 6"
  using assms simulate_terminal [of "wait_entry c s"]
  by (simp_all add: wait_badge_def wait_state_def wait_entry_fields clear_flags_fields)

lemma api_step_terminal:
  assumes "sim_stage s = 6" "api_step c s = Some (rs, s')"
  shows "sim_stage s' = 6"
proof (cases c)
  case (Notify ch)
  with assms show ?thesis by (auto dest: notify_stage)
next
  case (IrqAck ch)
  with assms show ?thesis by (auto dest: irq_ack_stage)
next
  case (PPCall ch m)
  with assms show ?thesis
    using ppcall_stage [of ch m s] by (auto simp: api_step_ppcall simp del: api_step.simps)
next
  case (Recv src)
  with assms show ?thesis
    using wait_terminal(2) [OF assms(1), of c] wait_step [of c s] by simp
next
  case (ReplyRecv src t)
  with assms show ?thesis
    using wait_terminal(2) [OF assms(1), of c] wait_step [of c s] by simp
qed

lemma run_calls_terminal: "sim_stage s = 6 \<Longrightarrow> sim_stage (snd (run_calls cs s)) = 6"
proof (induction cs arbitrary: s)
  case Nil
  then show ?case by simp
next
  case (Cons c cs)
  show ?case
  proof (cases "api_step c s")
    case None
    then show ?thesis using Cons.prems by simp
  next
    case (Some p)
    obtain rs s' where p: "p = (rs, s')" by (cases p)
    have st: "api_step c s = Some (rs, s')" using Some p by simp
    have "sim_stage s' = 6" using Cons.prems st by (rule api_step_terminal)
    then have "sim_stage (snd (run_calls cs s')) = 6" by (rule Cons.IH)
    then show ?thesis by (simp add: run_calls_Some [OF st] del: run_calls.simps)
  qed
qed

text \<open>
  C8: in a state whose stage is 6, \<^verbatim>\<open>seL4_Recv\<close> and \<^verbatim>\<open>seL4_ReplyRecv\<close> return the
  empty message info with badge 0, \<^verbatim>\<open>sel4cp_ppcall\<close> returns the empty message info
  (label 0, length 0), each leaves the stage at 6, and along every sequence of API
  calls the stage stays 6 and every reply has label 0 and length 0.
\<close>

theorem terminal_stage_forever:
  assumes "sim_stage s = 6"
  shows "fst (seL4_Recv src s) = (\<lparr>words0 = 0\<rparr>, 0)
    \<and> sim_stage (snd (seL4_Recv src s)) = 6
    \<and> fst (seL4_ReplyRecv src reply_tag s) = (\<lparr>words0 = 0\<rparr>, 0)
    \<and> sim_stage (snd (seL4_ReplyRecv src reply_tag s)) = 6
    \<and> fst (sel4cp_ppcall ch msginfo s) = \<lparr>words0 = 0\<rparr>
    \<and> sim_stage (snd (sel4cp_ppcall ch msginfo s)) = 6
    \<and> seL4_MessageInfo_get_label \<lparr>words0 = 0\<rparr> = 0
    \<and> seL4_MessageInfo_get_length \<lparr>words0 = 0\<rparr> = 0
    \<and> sim_stage (snd (run_calls cs s)) = 6
    \<and> (\<forall>r\<in>set (fst (run_calls cs s)).
          seL4_MessageInfo_get_label (fst r) = 0 \<and> seL4_MessageInfo_get_length (fst r) = 0)"
proof -
  have a: "fst (seL4_Recv src s) = (\<lparr>words0 = 0\<rparr>, 0)"
    "sim_stage (snd (seL4_Recv src s)) = 6"
    using wait_terminal [OF assms, of "Recv src"]
    by (simp_all add: recv_eq wait_badge_def wait_state_def)
  have b: "fst (seL4_ReplyRecv src reply_tag s) = (\<lparr>words0 = 0\<rparr>, 0)"
    "sim_stage (snd (seL4_ReplyRecv src reply_tag s)) = 6"
    using wait_terminal [OF assms, of "ReplyRecv src reply_tag"]
    by (simp_all add: replyrecv_eq wait_badge_def wait_state_def)
  have c: "fst (sel4cp_ppcall ch msginfo s) = \<lparr>words0 = 0\<rparr>"
    "sim_stage (snd (sel4cp_ppcall ch msginfo s)) = 6"
    using assms by (simp_all add: ppcall_eq sel4cp_dbg_puts_def)
  have d: "sim_stage (snd (run_calls cs s)) = 6"
    using assms by (rule run_calls_terminal)
  have e: "\<forall>r\<in>set (fst (run_calls cs s)).
          seL4_MessageInfo_get_label (fst r) = 0 \<and> seL4_MessageInfo_get_length (fst r) = 0"
    using run_calls_empty_replies [of cs s] by (simp add: empty_label empty_length)
  show ?thesis
    using a b c d e by (simp add: empty_label empty_length)
qed

text \<open>The terminal stage at a state with stage 6 and a sequence of six calls.\<close>

theorem terminal_stage_forever_witness:
  "sim_stage terminal_state = 6
   \<and> fst (seL4_Recv 1 terminal_state) = (\<lparr>words0 = 0\<rparr>, 0)
   \<and> fst (seL4_ReplyRecv 1 (sel4cp_msginfo_new 1 0) terminal_state) = (\<lparr>words0 = 0\<rparr>, 0)
   \<and> fst (sel4cp_ppcall 1 (sel4cp_msginfo_new 3 1) terminal_state) = \<lparr>words0 = 0\<rparr>
   \<and> length (fst (run_calls
        [Recv 1, PPCall 1 (sel4cp_msginfo_new 3 1), IrqAck 0,
         ReplyRecv 1 (sel4cp_msginfo_new 1 0), Notify 1, Recv 1] terminal_state)) = 4
   \<and> sim_stage (snd (run_calls
        [Recv 1, PPCall 1 (sel4cp_msginfo_new 3 1), IrqAck 0,
         ReplyRecv 1 (sel4cp_msginfo_new 1 0), Notify 1, Recv 1] terminal_state)) = 6
   \<and> seL4_MessageInfo_get_label (fst (last (fst (run_calls
        [Recv 1, PPCall 1 (sel4cp_msginfo_new 3 1), IrqAck 0,
         ReplyRecv 1 (sel4cp_msginfo_new 1 0), Notify 1, Recv 1] terminal_state)))) = 0
   \<and> seL4_MessageInfo_get_length (fst (last (fst (run_calls
        [Recv 1, PPCall 1 (sel4cp_msginfo_new 3 1), IrqAck 0,
         ReplyRecv 1 (sel4cp_msginfo_new 1 0), Notify 1, Recv 1] terminal_state)))) = 0"
proof -
  let ?cs = "[Recv 1, PPCall 1 (sel4cp_msginfo_new 3 1), IrqAck 0,
         ReplyRecv 1 (sel4cp_msginfo_new 1 0), Notify 1, Recv 1]"
  have h: "sim_stage terminal_state = 6"
    by (simp add: terminal_state_def)
  have l: "length (fst (run_calls ?cs terminal_state)) = 4"
    by code_simp
  then have "fst (run_calls ?cs terminal_state) \<noteq> []"
    by auto
  then have m: "last (fst (run_calls ?cs terminal_state)) \<in> set (fst (run_calls ?cs terminal_state))"
    by (rule last_in_set)
  note t = terminal_stage_forever [OF h, where src = 1
      and reply_tag = "sel4cp_msginfo_new 1 0" and ch = 1
      and msginfo = "sel4cp_msginfo_new 3 1" and cs = ?cs]
  show ?thesis
    using h l m t by blast
qed

end
